theory Spec2Isabelle
  imports Complex_Main
begin

section \<open>JavaScript values and strings\<close>

text \<open>
  The handlers of \<^verbatim>\<open>backend/controllers/pmsfeature.js\<close> read the fields of a parsed JSON
  body and test them with JavaScript's truthiness. \<open>jsval\<close> is a JSON scalar;
  \<open>JUndefined\<close> is what reading an absent key gives. A number is the rational it
  denotes (every finite double is one; 0 and -0 are both falsy and print alike), and
  \<open>JInf\<close> is the infinity, negative when its flag is set, that \<^verbatim>\<open>JSON.parse\<close> gives for a
  literal beyond the range of a double. The account handlers are modelled on bodies whose
  fields are scalars.
\<close>

datatype jsval = JUndefined | JNull | JBool bool | JNum rat | JInf bool | JStr string

fun truthy :: "jsval \<Rightarrow> bool" where
  "truthy JUndefined = False"
| "truthy JNull = False"
| "truthy (JBool b) = b"
| "truthy (JNum n) = (n \<noteq> 0)"
| "truthy (JInf negative) = True"
| "truthy (JStr s) = (s \<noteq> [])"

type_synonym body = "string \<rightharpoonup> jsval"

definition field :: "body \<Rightarrow> string \<Rightarrow> jsval" where
  "field b k = (case b k of None \<Rightarrow> JUndefined | Some v \<Rightarrow> v)"

text \<open>
  The payment handler converts the fields of its body to strings itself, in the template
  literals of its log lines, so its model takes any JSON value. A scalar is a \<open>jsval\<close>;
  an array or object is kept as what \<^verbatim>\<open>ToString\<close> makes of it: its text, or \<open>None\<close> when the
  conversion throws a TypeError (as it does for an object parsed from JSON that has a key
  \<^verbatim>\<open>toString\<close>, which is then not callable). Arrays and objects are truthy, and a scalar
  always converts.
\<close>

datatype json = Scalar jsval | Composite "string option"

fun truthy_json :: "json \<Rightarrow> bool" where
  "truthy_json (Scalar v) = truthy v"
| "truthy_json (Composite s) = True"

fun converts :: "json \<Rightarrow> bool" where
  "converts (Scalar v) = True"
| "converts (Composite s) = (s \<noteq> None)"

type_synonym payment_body = "string \<rightharpoonup> json"

definition payment_field :: "payment_body \<Rightarrow> string \<Rightarrow> json" where
  "payment_field b k = (case b k of None \<Rightarrow> Scalar JUndefined | Some v \<Rightarrow> v)"

text \<open>Decimal rendering of a non-negative integer, as a template literal prints it.\<close>

definition digit_char :: "nat \<Rightarrow> char" where
  "digit_char d = ''0123456789'' ! d"

function show_nat :: "nat \<Rightarrow> string" where
  "show_nat n = (if n < 10 then [digit_char n] else show_nat (n div 10) @ [digit_char (n mod 10)])"
  by pat_completeness auto
termination
  by (relation "measure (\<lambda>n. n)") auto

declare show_nat.simps [simp del]

definition show_int :: "int \<Rightarrow> string" where
  "show_int i = (if i < 0 then CHR ''-'' # show_nat (nat (- i)) else show_nat (nat i))"

text \<open>\<^verbatim>\<open>s.startsWith(p)\<close>, \<^verbatim>\<open>s.split(sep)\<close> for a one-character separator, and \<^verbatim>\<open>xs[i]\<close>,
  which is \<^verbatim>\<open>undefined\<close> (here \<open>None\<close>) out of range.\<close>

definition startsWith :: "string \<Rightarrow> string \<Rightarrow> bool" where
  "startsWith s p = (take (length p) s = p)"

fun split_str :: "char \<Rightarrow> string \<Rightarrow> string list" where
  "split_str sep [] = [[]]"
| "split_str sep (c # cs) =
     (if c = sep then [] # split_str sep cs
      else (case split_str sep cs of [] \<Rightarrow> [[c]] | w # ws \<Rightarrow> (c # w) # ws))"

definition at_index :: "'a list \<Rightarrow> nat \<Rightarrow> 'a option" where
  "at_index xs i = (if i < length xs then Some (xs ! i) else None)"

section \<open>The libraries the file calls\<close>

type_synonym objectId = nat

text \<open>
  \<^verbatim>\<open>bcryptjs\<close> and \<^verbatim>\<open>jsonwebtoken\<close> are dependencies, not code of this repository. Their
  cryptography is a parameter of the model: \<open>bcrypt_hash p salt\<close> is the digest of the
  plaintext \<open>p\<close> under \<open>salt\<close>, \<open>bcrypt_check p h\<close> says whether the plaintext \<open>p\<close> verifies
  against the digest \<open>h\<close>, \<open>jwt_encode\<close> signs a payload under \<^verbatim>\<open>JWT_SECRET\<close> and \<open>jwt_decode\<close>
  gives back the payload of a string that is well-formed and carries a good signature.
  So is the way the JavaScript runtime prints a finite number, \<open>number_toString\<close>
  (\<^verbatim>\<open>Number.prototype.toString\<close>: plain decimal, or exponent form from 1e21 on).
\<close>

record payload =
  jid :: objectId
  iat :: nat
  exp :: nat

record libs =
  bcrypt_hash :: "string \<Rightarrow> string \<Rightarrow> string"
  bcrypt_check :: "string \<Rightarrow> string \<Rightarrow> bool"
  jwt_encode :: "payload \<Rightarrow> string"
  jwt_decode :: "string \<Rightarrow> payload option"
  number_toString :: "rat \<Rightarrow> string"

datatype error = ValidationError | DuplicateKey | IllegalArguments

datatype jwt_error = JsonWebTokenError | TokenExpiredError

text \<open>
  Modelled from the spec: \<^verbatim>\<open>jwt.sign\<close> and \<^verbatim>\<open>jwt.verify\<close> of the jsonwebtoken package, which
  is not under src/. Section 4.3 of the spec: issuing embeds the user id and an absolute
  expiry under the server's secret; verifying fails with InvalidToken for malformed or
  unsigned input and with ExpiredToken once past expiry. Times are milliseconds since the
  epoch (\<^verbatim>\<open>Date.now()\<close>); the payload counts seconds, and a token is expired from the
  second of its expiry on. A token that is absent or empty is malformed input.
  \<^verbatim>\<open>JWT_SECRET\<close> is taken to be set, so that signing does not throw.
\<close>

definition jwt_sign :: "libs \<Rightarrow> objectId \<Rightarrow> nat \<Rightarrow> nat \<Rightarrow> string" where
  "jwt_sign L i expiresIn now =
     jwt_encode L \<lparr>jid = i, iat = now div 1000, exp = now div 1000 + expiresIn\<rparr>"

definition jwt_verify :: "libs \<Rightarrow> string option \<Rightarrow> nat \<Rightarrow> jwt_error + payload" where
  "jwt_verify L token now =
     (case token of
        None \<Rightarrow> Inl JsonWebTokenError
      | Some s \<Rightarrow>
          if s = [] then Inl JsonWebTokenError
          else (case jwt_decode L s of
                  None \<Rightarrow> Inl JsonWebTokenError
                | Some p \<Rightarrow> if exp p \<le> now div 1000 then Inl TokenExpiredError else Inr p))"

text \<open>
  \<^verbatim>\<open>bcrypt.compare(s, hash)\<close>: bcryptjs rejects with "Illegal arguments" unless both
  arguments are strings.
\<close>

definition bcrypt_compare :: "libs \<Rightarrow> jsval \<Rightarrow> string option \<Rightarrow> error + bool" where
  "bcrypt_compare L s h =
     (case (s, h) of
        (JStr p, Some d) \<Rightarrow> Inr (bcrypt_check L p d)
      | _ \<Rightarrow> Inl IllegalArguments)"

section \<open>Responses\<close>

text \<open>A response is the status and the object the handler hands to \<^verbatim>\<open>res.json\<close>.\<close>

datatype json_out =
    Message string
  | ErrorMessage error
  | AuthUser objectId "string option" "string option" string
  | Profile objectId "string option" "string option" "string option" "string option"
      "string option" string
  | Payment string string json string

record response =
  status :: nat
  json :: json_out

section \<open>Authentication middleware\<close>

record request =
  authorization :: "string option"
  user :: "objectId option"

text \<open>
  What \<^verbatim>\<open>protect\<close> did with a request: the calls of \<^verbatim>\<open>res.status(..).json(..)\<close> in the order
  they were made, whether \<^verbatim>\<open>next()\<close> was called, and the request as the handler sees it.
\<close>

record gate =
  sent :: "response list"
  next_called :: bool
  req :: request

definition generateToken :: "libs \<Rightarrow> objectId \<Rightarrow> nat \<Rightarrow> string" where
  "generateToken L i now = jwt_sign L i 3600 now"

definition protect :: "libs \<Rightarrow> request \<Rightarrow> nat \<Rightarrow> gate" where
  "protect L r now =
     (let g0 = \<lparr>sent = [], next_called = False, req = r\<rparr>;
          (token, g1) =
            (case authorization r of
               None \<Rightarrow> (None, g0)
             | Some a \<Rightarrow>
                 if a \<noteq> [] \<and> startsWith a ''Bearer'' then
                   (let token = at_index (split_str CHR '' '' a) 1 in
                    case jwt_verify L token now of
                      Inr decoded \<Rightarrow>
                        (token, g0\<lparr>req := r\<lparr>user := Some (jid decoded)\<rparr>, next_called := True\<rparr>)
                    | Inl e \<Rightarrow>
                        (token,
                         g0\<lparr>sent := [\<lparr>status = 401, json = Message ''Not authorized, token failed''\<rparr>]\<rparr>))
                 else (None, g0))
      in if token = None \<or> token = Some []
         then g1\<lparr>sent := sent g1 @ [\<lparr>status = 401, json = Message ''Not authorized, no token''\<rparr>]\<rparr>
         else g1)"

section \<open>The user collection\<close>

text \<open>
  A document of the \<^verbatim>\<open>User\<close> model. Every path of the schema is a String; a path that is
  not set is \<open>None\<close>. The collection is the list of its documents in insertion order.
  The \<^verbatim>\<open>createdAt\<close> and \<^verbatim>\<open>updatedAt\<close> stamps, which no handler reads, are left out.
\<close>

record user_rec =
  uid :: objectId
  username :: "string option"
  email :: "string option"
  password :: "string option"
  firstName :: "string option"
  lastName :: "string option"
  phoneNumber :: "string option"

type_synonym collection = "user_rec list"

text \<open>
  Mongoose casts what is assigned to a String path, and the value of a query filter, to
  a string: a number or a boolean by its \<^verbatim>\<open>toString()\<close>, while null and undefined stay as
  they are. A filter on a missing value matches the documents that lack the path.
\<close>

fun castString :: "libs \<Rightarrow> jsval \<Rightarrow> string option" where
  "castString L JUndefined = None"
| "castString L JNull = None"
| "castString L (JBool b) = Some (if b then ''true'' else ''false'')"
| "castString L (JNum n) = Some (number_toString L n)"
| "castString L (JInf negative) = Some (if negative then ''-Infinity'' else ''Infinity'')"
| "castString L (JStr s) = Some s"

definition findOne_email :: "libs \<Rightarrow> collection \<Rightarrow> jsval \<Rightarrow> user_rec option" where
  "findOne_email L db v = find (\<lambda>u. email u = castString L v) db"

definition findById :: "collection \<Rightarrow> objectId option \<Rightarrow> user_rec option" where
  "findById db i = (case i of None \<Rightarrow> None | Some k \<Rightarrow> find (\<lambda>u. uid u = k) db)"

fun updateOne :: "collection \<Rightarrow> user_rec \<Rightarrow> collection" where
  "updateOne [] d = []"
| "updateOne (u # us) d = (if uid u = uid d then d # us else u # updateOne us d)"

text \<open>
  \<^verbatim>\<open>findById\<close> and the write of a saved document go by \<^verbatim>\<open>_id\<close>.

  A document in memory carries Mongoose's change tracking, which \<^verbatim>\<open>isModified\<close> reads:
  every path set on a new document is modified; assigning to a path of a document that
  was loaded from the collection marks the path modified only when the value differs
  from the one the path holds.
\<close>

record document =
  data :: user_rec
  isNew :: bool
  modified :: "string set"

definition isModified :: "document \<Rightarrow> string \<Rightarrow> bool" where
  "isModified d path = (path \<in> modified d)"

definition mark :: "document \<Rightarrow> string \<Rightarrow> bool \<Rightarrow> document" where
  "mark d path changed =
     (if isNew d \<or> changed then d\<lparr>modified := insert path (modified d)\<rparr> else d)"

definition set_username :: "document \<Rightarrow> string option \<Rightarrow> document" where
  "set_username d v =
     (mark d ''username'' (v \<noteq> username (data d)))\<lparr>data := (data d)\<lparr>username := v\<rparr>\<rparr>"

definition set_email :: "document \<Rightarrow> string option \<Rightarrow> document" where
  "set_email d v =
     (mark d ''email'' (v \<noteq> email (data d)))\<lparr>data := (data d)\<lparr>email := v\<rparr>\<rparr>"

definition set_password :: "document \<Rightarrow> string option \<Rightarrow> document" where
  "set_password d v =
     (mark d ''password'' (v \<noteq> password (data d)))\<lparr>data := (data d)\<lparr>password := v\<rparr>\<rparr>"

definition set_firstName :: "document \<Rightarrow> string option \<Rightarrow> document" where
  "set_firstName d v =
     (mark d ''firstName'' (v \<noteq> firstName (data d)))\<lparr>data := (data d)\<lparr>firstName := v\<rparr>\<rparr>"

definition set_lastName :: "document \<Rightarrow> string option \<Rightarrow> document" where
  "set_lastName d v =
     (mark d ''lastName'' (v \<noteq> lastName (data d)))\<lparr>data := (data d)\<lparr>lastName := v\<rparr>\<rparr>"

definition set_phoneNumber :: "document \<Rightarrow> string option \<Rightarrow> document" where
  "set_phoneNumber d v =
     (mark d ''phoneNumber'' (v \<noteq> phoneNumber (data d)))\<lparr>data := (data d)\<lparr>phoneNumber := v\<rparr>\<rparr>"

text \<open>The \<^verbatim>\<open>required\<close> validator of a String path: present and not empty.\<close>

definition required_ok :: "string option \<Rightarrow> bool" where
  "required_ok v = (case v of None \<Rightarrow> False | Some s \<Rightarrow> s \<noteq> [])"

definition validate :: "user_rec \<Rightarrow> bool" where
  "validate u = (required_ok (username u) \<and> required_ok (email u) \<and> required_ok (password u))"

text \<open>
  \<^verbatim>\<open>UserSchema.pre("save")\<close>: the password is hashed when its path is modified. The salt
  is what \<^verbatim>\<open>bcrypt.genSalt(10)\<close> drew for this call.
\<close>

definition pre_save :: "libs \<Rightarrow> string \<Rightarrow> document \<Rightarrow> error + document" where
  "pre_save L salt d =
     (if isModified d ''password'' then
        (case password (data d) of
           None \<Rightarrow> Inl IllegalArguments
         | Some p \<Rightarrow> Inr (d\<lparr>data := (data d)\<lparr>password := Some (bcrypt_hash L p salt)\<rparr>\<rparr>))
      else Inr d)"

text \<open>
  \<^verbatim>\<open>save()\<close>: validation, then the pre-save hook, then the write. A new document is
  inserted; of a loaded one the modified paths are written. The collection has unique
  indexes on \<^verbatim>\<open>_id\<close>, \<^verbatim>\<open>username\<close> and \<^verbatim>\<open>email\<close> (\<^verbatim>\<open>unique: true\<close> in the schema); a write that
  would repeat a key fails with a duplicate key error and changes nothing. Requests are
  handled one at a time, and the database is taken to be reachable.
\<close>

definition save :: "libs \<Rightarrow> collection \<Rightarrow> string \<Rightarrow> document \<Rightarrow> error + collection \<times> user_rec" where
  "save L db salt d =
     (if \<not> validate (data d) then Inl ValidationError
      else
        (case pre_save L salt d of
           Inl e \<Rightarrow> Inl e
         | Inr d' \<Rightarrow>
             (let u = data d' in
              if isNew d' then
                (if list_ex (\<lambda>v. uid v = uid u \<or> username v = username u \<or> email v = email u) db
                 then Inl DuplicateKey
                 else Inr (db @ [u], u))
              else
                (if list_ex (\<lambda>v. uid v \<noteq> uid u \<and>
                        (isModified d' ''username'' \<and> username v = username u \<or>
                         isModified d' ''email'' \<and> email v = email u)) db
                 then Inl DuplicateKey
                 else Inr (updateOne db u, u)))))"

text \<open>\<^verbatim>\<open>User.create({username, email, password})\<close>; \<open>new_id\<close> is the ObjectId generated for it.\<close>

definition create ::
  "libs \<Rightarrow> collection \<Rightarrow> objectId \<Rightarrow> string \<Rightarrow> jsval \<Rightarrow> jsval \<Rightarrow> jsval \<Rightarrow> error + collection \<times> user_rec" where
  "create L db new_id salt un em pw =
     save L db salt
       \<lparr>data = \<lparr>uid = new_id, username = castString L un, email = castString L em,
                password = castString L pw, firstName = None, lastName = None,
                phoneNumber = None\<rparr>,
        isNew = True,
        modified = (if castString L un = None then {} else {''username''}) \<union>
                   (if castString L em = None then {} else {''email''}) \<union>
                   (if castString L pw = None then {} else {''password''})\<rparr>"

text \<open>What the unique indexes maintain: no two documents share an id, a username or an email.\<close>

definition unique_keys :: "collection \<Rightarrow> bool" where
  "unique_keys db =
     (distinct (map uid db) \<and> distinct (map username db) \<and> distinct (map email db))"

section \<open>Route handlers\<close>

text \<open>
  A handler starts from the collection and ends with the collection, the response it
  sent and the lines it wrote to the console. A console line is kept as its pieces: the
  literal text, the values a template literal interpolates, and the error object that
  \<^verbatim>\<open>console.error\<close> prints.
\<close>

datatype piece = Lit string | Val json | Thrown

record outcome =
  store :: collection
  reply :: response
  console :: "piece list list"

text \<open>
  \<^verbatim>\<open>registerUser\<close>. \<^verbatim>\<open>User.create\<close> resolves to the new document or throws, so the
  "Invalid user data" branch of the source is never taken.
\<close>

definition registerUser ::
  "libs \<Rightarrow> collection \<Rightarrow> body \<Rightarrow> objectId \<Rightarrow> string \<Rightarrow> nat \<Rightarrow> outcome" where
  "registerUser L db b new_id salt now =
     (let un = field b ''username''; em = field b ''email''; pw = field b ''password'' in
      case findOne_email L db em of
        Some userExists \<Rightarrow>
          \<lparr>store = db, reply = \<lparr>status = 400, json = Message ''User already exists''\<rparr>,
           console = []\<rparr>
      | None \<Rightarrow>
          (case create L db new_id salt un em pw of
             Inl e \<Rightarrow>
               \<lparr>store = db, reply = \<lparr>status = 500, json = ErrorMessage e\<rparr>, console = []\<rparr>
           | Inr (db', u) \<Rightarrow>
               \<lparr>store = db',
                reply = \<lparr>status = 201,
                         json = AuthUser (uid u) (username u) (email u)
                                  (generateToken L (uid u) now)\<rparr>,
                console = []\<rparr>))"

definition loginUser :: "libs \<Rightarrow> collection \<Rightarrow> body \<Rightarrow> nat \<Rightarrow> outcome" where
  "loginUser L db b now =
     (let em = field b ''email''; pw = field b ''password'' in
      case findOne_email L db em of
        None \<Rightarrow>
          \<lparr>store = db, reply = \<lparr>status = 401, json = Message ''Invalid email or password''\<rparr>,
           console = []\<rparr>
      | Some u \<Rightarrow>
          (case bcrypt_compare L pw (password u) of
             Inl e \<Rightarrow>
               \<lparr>store = db, reply = \<lparr>status = 500, json = ErrorMessage e\<rparr>, console = []\<rparr>
           | Inr ok \<Rightarrow>
               if ok then
                 \<lparr>store = db,
                  reply = \<lparr>status = 200,
                           json = AuthUser (uid u) (username u) (email u)
                                    (generateToken L (uid u) now)\<rparr>,
                  console = []\<rparr>
               else
                 \<lparr>store = db,
                  reply = \<lparr>status = 401, json = Message ''Invalid email or password''\<rparr>,
                  console = []\<rparr>))"

text \<open>\<^verbatim>\<open>req.body.x || user.x\<close>, as the value the String path receives.\<close>

definition or_stored :: "libs \<Rightarrow> jsval \<Rightarrow> string option \<Rightarrow> string option" where
  "or_stored L v old = (if truthy v then castString L v else old)"

text \<open>
  Lines 152 to 159 of the source: the assignments \<^verbatim>\<open>updateUserProfile\<close> makes to the
  document it loaded, before it saves it.
\<close>

definition assign_profile :: "libs \<Rightarrow> user_rec \<Rightarrow> body \<Rightarrow> document" where
  "assign_profile L u b =
     (let d0 = \<lparr>data = u, isNew = False, modified = {}\<rparr>;
          d1 = set_username d0 (or_stored L (field b ''username'') (username (data d0)));
          d2 = set_email d1 (or_stored L (field b ''email'') (email (data d1)));
          d3 = set_firstName d2 (or_stored L (field b ''firstName'') (firstName (data d2)));
          d4 = set_lastName d3 (or_stored L (field b ''lastName'') (lastName (data d3)));
          d5 = set_phoneNumber d4
                 (or_stored L (field b ''phoneNumber'') (phoneNumber (data d4)))
      in if truthy (field b ''password'')
         then set_password d5 (castString L (field b ''password'')) else d5)"

definition updateUserProfile ::
  "libs \<Rightarrow> collection \<Rightarrow> request \<Rightarrow> body \<Rightarrow> string \<Rightarrow> nat \<Rightarrow> outcome" where
  "updateUserProfile L db r b salt now =
     (case findById db (user r) of
        None \<Rightarrow>
          \<lparr>store = db, reply = \<lparr>status = 404, json = Message ''User not found''\<rparr>,
           console = []\<rparr>
      | Some u \<Rightarrow>
          (case save L db salt (assign_profile L u b) of
             Inl e \<Rightarrow>
               \<lparr>store = db, reply = \<lparr>status = 500, json = ErrorMessage e\<rparr>, console = []\<rparr>
           | Inr (db', updatedUser) \<Rightarrow>
               \<lparr>store = db',
                reply = \<lparr>status = 200,
                         json = Profile (uid updatedUser) (username updatedUser)
                                  (email updatedUser) (firstName updatedUser)
                                  (lastName updatedUser) (phoneNumber updatedUser)
                                  (generateToken L (uid updatedUser) now)\<rparr>,
                console = []\<rparr>))"

text \<open>
  \<^verbatim>\<open>processPayment\<close>. \<open>now\<close> is \<^verbatim>\<open>Date.now()\<close> when the simulated delay is over: a count of
  milliseconds, which a template literal prints in plain decimal. Inside the \<^verbatim>\<open>try\<close>
  block the two log lines convert the fields to strings; when a conversion throws, the
  catch branch reports the error on the console and answers 500. The handler never
  touches the \<^verbatim>\<open>User\<close> model: the collection it ends with is the one it started from.
\<close>

definition processPayment :: "collection \<Rightarrow> payment_body \<Rightarrow> nat \<Rightarrow> outcome" where
  "processPayment db b now =
     (let cardNumber = payment_field b ''cardNumber'';
          expiryDate = payment_field b ''expiryDate'';
          cvv = payment_field b ''cvv'';
          cardHolderName = payment_field b ''cardHolderName'';
          amount = payment_field b ''amount'';
          failed = \<lparr>status = 500, json = Message ''Payment failed. Please try again.''\<rparr>;
          line1 = [Lit ''Processing payment for '', Val cardHolderName, Lit '' with amount '',
                   Val amount];
          line2 = [Lit ''Card Number: '', Val cardNumber, Lit '', Expiry: '', Val expiryDate,
                   Lit '', CVV: '', Val cvv];
          error_line = [Lit ''Payment processing error:'', Thrown]
      in
      if \<not> truthy_json cardNumber \<or> \<not> truthy_json expiryDate \<or> \<not> truthy_json cvv \<or>
         \<not> truthy_json cardHolderName \<or> \<not> truthy_json amount
      then \<lparr>store = db, reply = \<lparr>status = 400, json = Message ''Missing payment details.''\<rparr>,
            console = []\<rparr>
      else if \<not> (converts cardHolderName \<and> converts amount)
      then \<lparr>store = db, reply = failed, console = [error_line]\<rparr>
      else if \<not> (converts cardNumber \<and> converts expiryDate \<and> converts cvv)
      then \<lparr>store = db, reply = failed, console = [line1, error_line]\<rparr>
      else
        (let transactionId = ''TXN_'' @ show_nat now in
         \<lparr>store = db,
          reply = \<lparr>status = 200,
                   json = Payment ''Payment processed successfully!'' transactionId amount
                            ''completed''\<rparr>,
          console = [line1, line2]\<rparr>))"

text \<open>Observers for stating what a payment request got.\<close>

definition has_payment_details :: "payment_body \<Rightarrow> bool" where
  "has_payment_details b =
     (truthy_json (payment_field b ''cardNumber'') \<and>
      truthy_json (payment_field b ''expiryDate'') \<and>
      truthy_json (payment_field b ''cvv'') \<and>
      truthy_json (payment_field b ''cardHolderName'') \<and>
      truthy_json (payment_field b ''amount''))"

definition all_convert :: "payment_body \<Rightarrow> bool" where
  "all_convert b =
     (converts (payment_field b ''cardNumber'') \<and> converts (payment_field b ''expiryDate'') \<and>
      converts (payment_field b ''cvv'') \<and> converts (payment_field b ''cardHolderName'') \<and>
      converts (payment_field b ''amount''))"

definition transactionId_of :: "json_out \<Rightarrow> string option" where
  "transactionId_of j = (case j of Payment m i a s \<Rightarrow> Some i | _ \<Rightarrow> None)"

section \<open>A reference instance of the libraries\<close>


text \<open>
  To run the model on concrete requests the library parameters need values. This
  instance is a stand-in with the interface of the real packages and none of their
  cryptography: a digest is the two-character salt followed by the plaintext, and a
  token is the three numbers of its payload, in decimal, followed by a fixed signature.
  It prints a number as the decimal of its integer part; the examples use integers.
\<close>

definition read_nat :: "string \<Rightarrow> nat option" where
  "read_nat s =
     (if s \<noteq> [] \<and> list_all (\<lambda>c. c \<in> set ''0123456789'') s
      then Some (foldl (\<lambda>n c. 10 * n + (of_char c - 48)) 0 s)
      else None)"

definition ref_encode :: "payload \<Rightarrow> string" where
  "ref_encode p =
     show_nat (jid p) @ ''.'' @ show_nat (iat p) @ ''.'' @ show_nat (exp p) @ ''.sig''"

definition ref_decode :: "string \<Rightarrow> payload option" where
  "ref_decode s =
     (case split_str CHR ''.'' s of
        [a, b, c, k] \<Rightarrow>
          (case (read_nat a, read_nat b, read_nat c) of
             (Some i, Some t, Some e) \<Rightarrow>
               if k = ''sig'' then Some \<lparr>jid = i, iat = t, exp = e\<rparr> else None
           | _ \<Rightarrow> None)
      | _ \<Rightarrow> None)"

definition ref_libs :: libs where
  "ref_libs =
     \<lparr>bcrypt_hash = (\<lambda>p salt. take 2 salt @ p),
      bcrypt_check = (\<lambda>p h. drop 2 h = p),
      jwt_encode = ref_encode,
      jwt_decode = ref_decode,
      number_toString = (\<lambda>q. show_int \<lfloor>q\<rfloor>)\<rparr>"

section \<open>Sample data\<close>

text \<open>A stored user whose password digest, under the reference instance, is that of \<open>old\<close>.\<close>

definition alice :: user_rec where
  "alice = \<lparr>uid = 7, username = Some ''alice'', email = Some ''a@x'',
             password = Some ''s1old'', firstName = None, lastName = None,
             phoneNumber = None\<rparr>"

text \<open>Her request to a protected route, as the handler sees it once the gate has let it pass.\<close>

definition alice_req :: request where
  "alice_req = \<lparr>authorization = Some ''Bearer 7.5.3605.sig'', user = Some 7\<rparr>"

text \<open>A payment request with all five fields, for the given holder and amount.\<close>

definition payment :: "json \<Rightarrow> json \<Rightarrow> payment_body" where
  "payment holder amount =
     [''cardNumber'' \<mapsto> Scalar (JStr ''4111111111111111''),
      ''expiryDate'' \<mapsto> Scalar (JStr ''12/30''), ''cvv'' \<mapsto> Scalar (JStr ''123''),
      ''cardHolderName'' \<mapsto> holder, ''amount'' \<mapsto> amount]"

text \<open>The body of a signup request with its three fields.\<close>

definition signup :: "string \<Rightarrow> string \<Rightarrow> string \<Rightarrow> body" where
  "signup u e p = [''username'' \<mapsto> JStr u, ''email'' \<mapsto> JStr e, ''password'' \<mapsto> JStr p]"

section \<open>Evaluating the reference instance\<close>

lemma ref_libs_sel [simp]:
  "jwt_encode ref_libs = ref_encode" "jwt_decode ref_libs = ref_decode"
  "bcrypt_hash ref_libs p s = take 2 s @ p" "bcrypt_check ref_libs p h = (drop 2 h = p)"
  by (simp_all add: ref_libs_def)

lemma show_nat_numeral [simp]:
  "show_nat (numeral k) =
     (if (numeral k :: nat) < 10 then [digit_char (numeral k)]
      else show_nat (numeral k div 10) @ [digit_char (numeral k mod 10)])"
  by (rule show_nat.simps)

lemma show_nat_0 [simp]: "show_nat 0 = ''0''"
  by (simp add: show_nat.simps digit_char_def)

lemma show_nat_1 [simp]: "show_nat (Suc 0) = ''1''"
  by (simp add: show_nat.simps digit_char_def)

lemma ref_token_7: "generateToken ref_libs 7 5000 = ''7.5.3605.sig''"
  by (simp add: generateToken_def jwt_sign_def ref_encode_def digit_char_def)

lemma ref_decode_7: "ref_decode ''7.5.3605.sig'' = Some \<lparr>jid = 7, iat = 5, exp = 3605\<rparr>"
  by (simp add: ref_decode_def read_nat_def)

section \<open>Decimal rendering is injective\<close>

lemma digit_char_inj:
  assumes "a < 10" and "b < 10" and "digit_char a = digit_char b"
  shows "a = b"
proof -
  have d: "distinct ''0123456789''" by simp
  have l: "length ''0123456789'' = 10" by simp
  from assms(3) have "''0123456789'' ! a = ''0123456789'' ! b"
    by (simp only: digit_char_def)
  with d assms(1,2) l show "a = b"
    by (metis nth_eq_iff_index_eq)
qed

lemma show_nat_nonempty: "show_nat n \<noteq> []"
  by (subst show_nat.simps) simp

lemma show_nat_inj: "show_nat m = show_nat n \<Longrightarrow> m = n"
proof (induction m arbitrary: n rule: show_nat.induct)
  case (1 m)
  show ?case
  proof (cases "m < 10")
    case m: True
    show ?thesis
    proof (cases "n < 10")
      case True
      with m "1.prems" show ?thesis
        by (simp add: show_nat.simps [of m] show_nat.simps [of n] digit_char_inj)
    next
      case False
      with m "1.prems" show_nat_nonempty [of "n div 10"] show ?thesis
        by (simp add: show_nat.simps [of m] show_nat.simps [of n])
    qed
  next
    case m: False
    show ?thesis
    proof (cases "n < 10")
      case True
      with m "1.prems" show_nat_nonempty [of "m div 10"] show ?thesis
        by (simp add: show_nat.simps [of m] show_nat.simps [of n])
    next
      case False
      with m "1.prems" have e: "show_nat (m div 10) = show_nat (n div 10)"
        and d: "digit_char (m mod 10) = digit_char (n mod 10)"
        by (simp_all add: show_nat.simps [of m] show_nat.simps [of n])
      from "1.IH" [OF m e] have q: "m div 10 = n div 10" .
      from d have r: "m mod 10 = n mod 10"
        by (intro digit_char_inj) simp_all
      from q r show ?thesis
        by (metis div_mult_mod_eq)
    qed
  qed
qed

section \<open>The authentication gate\<close>

lemma protect_no_credentials:
  assumes "authorization r = None \<or> (\<exists>a. authorization r = Some a \<and> \<not> startsWith a ''Bearer'')"
  shows "protect L r now =
           \<lparr>sent = [\<lparr>status = 401, json = Message ''Not authorized, no token''\<rparr>],
            next_called = False, req = r\<rparr>"
  using assms by (auto simp: protect_def Let_def)

lemma protect_bad_token:
  assumes "authorization r = Some a" and "startsWith a ''Bearer''"
    and "at_index (split_str CHR '' '' a) 1 = Some tok" and "tok \<noteq> []"
    and "jwt_verify L (Some tok) now = Inl e"
  shows "protect L r now =
           \<lparr>sent = [\<lparr>status = 401, json = Message ''Not authorized, token failed''\<rparr>],
            next_called = False, req = r\<rparr>"
  using assms by (auto simp: protect_def Let_def startsWith_def)

lemma protect_good_token:
  assumes "authorization r = Some a" and "startsWith a ''Bearer''"
    and "jwt_verify L (at_index (split_str CHR '' '' a) 1) now = Inr decoded"
  shows "protect L r now =
           \<lparr>sent = [], next_called = True, req = r\<lparr>user := Some (jid decoded)\<rparr>\<rparr>"
  using assms
  by (auto simp: protect_def Let_def startsWith_def jwt_verify_def split: option.splits)

lemma protect_single_outcome:
  assumes "\<not> (\<exists>a. authorization r = Some a \<and> startsWith a ''Bearer'' \<and>
              (at_index (split_str CHR '' '' a) 1 = None \<or>
               at_index (split_str CHR '' '' a) 1 = Some []))"
  shows "length (sent (protect L r now)) + (if next_called (protect L r now) then 1 else 0) = 1"
  using assms
  by (auto simp: protect_def Let_def jwt_verify_def startsWith_def
           split: option.splits sum.splits if_splits)

text \<open>
  C2 (the code departs from it). A header that is just \<open>Bearer\<close> passes the prefix test,
  has no second segment, fails verification and is answered twice: the catch branch sends
  "token failed" and the trailing check sends "no token". On every request outside this
  case the gate answers once or calls the handler (\<open>protect_single_outcome\<close>): a missing
  header or prefix gets "no token", a token that does not verify gets "token failed", and
  a token that verifies reaches the handler with the decoded id on the request.
\<close>

theorem protect_bare_Bearer_two_responses:
  "length (sent (protect L \<lparr>authorization = Some ''Bearer'', user = None\<rparr> now)) = 2"
  by (simp add: protect_def startsWith_def at_index_def jwt_verify_def)

text \<open>
  C10. When the header starts with \<open>Bearer\<close> and has no token after it (the second
  segment of the split is missing or empty), the gate calls \<^verbatim>\<open>res.status(401).json\<close> twice,
  "token failed" from the catch branch and then "no token", and never calls the handler.
\<close>

theorem protect_Bearer_without_token:
  assumes "authorization r = Some a" and "startsWith a ''Bearer''"
    and "at_index (split_str CHR '' '' a) 1 = None \<or>
         at_index (split_str CHR '' '' a) 1 = Some []"
  shows "sent (protect L r now) =
           [\<lparr>status = 401, json = Message ''Not authorized, token failed''\<rparr>,
            \<lparr>status = 401, json = Message ''Not authorized, no token''\<rparr>] \<and>
         \<not> next_called (protect L r now)"
proof -
  from assms(2) have ne: "a \<noteq> []"
    by (auto simp: startsWith_def)
  from assms(3) have v:
    "jwt_verify L (at_index (split_str CHR '' '' a) 1) now = Inl JsonWebTokenError"
    by (auto simp: jwt_verify_def)
  show ?thesis using assms ne v
    by (auto simp: protect_def Let_def)
qed

theorem protect_Bearer_without_token_witness:
  "sent (protect ref_libs \<lparr>authorization = Some ''Bearer'', user = None\<rparr> 0) =
     [\<lparr>status = 401, json = Message ''Not authorized, token failed''\<rparr>,
      \<lparr>status = 401, json = Message ''Not authorized, no token''\<rparr>] \<and>
   \<not> next_called (protect ref_libs \<lparr>authorization = Some ''Bearer'', user = None\<rparr> 0)"
  by (rule protect_Bearer_without_token [where a = "''Bearer''"])
     (simp_all add: startsWith_def at_index_def)

section \<open>Tokens\<close>

lemma digit_char_digit: "d < 10 \<Longrightarrow> digit_char d \<in> set ''0123456789''"
  unfolding digit_char_def by (rule nth_mem) simp

lemma digit_cases:
  assumes "(d::nat) < 10"
  shows "d = 0 \<or> d = 1 \<or> d = 2 \<or> d = 3 \<or> d = 4 \<or> d = 5 \<or> d = 6 \<or> d = 7 \<or> d = 8 \<or> d = 9"
  using assms by arith

lemma digit_char_value: "d < 10 \<Longrightarrow> of_char (digit_char d) - 48 = (d::nat)"
  by (drule digit_cases) (auto simp: digit_char_def)

lemma show_nat_digits: "set (show_nat n) \<subseteq> set ''0123456789''"
proof (induction n rule: show_nat.induct)
  case (1 n)
  show ?case
  proof (cases "n < 10")
    case True
    with digit_char_digit [of n] show ?thesis
      by (subst show_nat.simps) simp
  next
    case False
    with "1.IH" digit_char_digit [of "n mod 10"] show ?thesis
      by (subst show_nat.simps) simp
  qed
qed

lemma read_show_value:
  "foldl (\<lambda>n c. 10 * n + (of_char c - 48)) 0 (show_nat n) = n"
proof (induction n rule: show_nat.induct)
  case (1 n)
  show ?case
  proof (cases "n < 10")
    case True
    then show ?thesis
      by (subst show_nat.simps) (simp add: digit_char_value)
  next
    case False
    with "1.IH" show ?thesis
      by (subst show_nat.simps) (simp add: digit_char_value)
  qed
qed

lemma read_nat_show_nat: "read_nat (show_nat n) = Some n"
proof -
  have a: "list_all (\<lambda>c. c \<in> set ''0123456789'') (show_nat n)"
    unfolding list_all_iff using show_nat_digits [of n] by blast
  show ?thesis
    unfolding read_nat_def
    by (simp only: a show_nat_nonempty read_show_value simp_thms if_True)
qed

lemma split_str_no_sep: "sep \<notin> set xs \<Longrightarrow> split_str sep xs = [xs]"
  by (induction xs) auto

lemma split_str_at_sep:
  "sep \<notin> set xs \<Longrightarrow> split_str sep (xs @ sep # ys) = xs # split_str sep ys"
  by (induction xs) auto

lemma dot_not_digit: "CHR ''.'' \<notin> set (show_nat n)"
proof -
  have "CHR ''.'' \<notin> set ''0123456789''" by simp
  with show_nat_digits [of n] show ?thesis by blast
qed

lemma ref_decode_encode: "ref_decode (ref_encode p) = Some p"
proof -
  have "split_str CHR ''.'' (ref_encode p) =
          [show_nat (jid p), show_nat (iat p), show_nat (exp p), ''sig'']"
    by (simp add: ref_encode_def split_str_at_sep dot_not_digit)
  then show ?thesis
    by (simp add: ref_decode_def read_nat_show_nat)
qed

lemma ref_encode_nonempty: "ref_encode p \<noteq> []"
  by (simp add: ref_encode_def show_nat_nonempty)

text \<open>
  C3. Provided the library gives back the payload of every token it has signed,
  verifying a token at the moment \<^verbatim>\<open>generateToken\<close> issued it returns the user id it was
  issued for, with an expiry of the second of issue plus 3600 (\<^verbatim>\<open>generateToken\<close> asks for
  the lifetime "1h"); the token still verifies 3599 seconds after it was issued; and
  verifying it more than one hour (3600000 ms) after it was issued fails with
  TokenExpiredError.
\<close>

theorem verify_issued_token:
  assumes rt: "\<forall>p. jwt_decode L (jwt_encode L p) = Some p"
    and ne: "\<forall>p. jwt_encode L p \<noteq> []"
  shows "(\<exists>p. jwt_verify L (Some (generateToken L i t)) t = Inr p \<and> jid p = i \<and>
              exp p = t div 1000 + 3600) \<and>
         (t' \<le> t + 3599000 \<longrightarrow>
            (\<exists>p. jwt_verify L (Some (generateToken L i t)) t' = Inr p \<and> jid p = i)) \<and>
         (t + 3600000 < t'' \<longrightarrow>
            jwt_verify L (Some (generateToken L i t)) t'' = Inl TokenExpiredError)"
proof -
  let ?p = "\<lparr>jid = i, iat = t div 1000, exp = t div 1000 + 3600\<rparr>"
  have tok: "generateToken L i t = jwt_encode L ?p"
    by (simp add: generateToken_def jwt_sign_def)
  have v: "\<And>u. jwt_verify L (Some (generateToken L i t)) u =
             (if t div 1000 + 3600 \<le> u div 1000 then Inl TokenExpiredError else Inr ?p)"
    using rt ne by (simp add: tok jwt_verify_def)
  have early: "\<not> t div 1000 + 3600 \<le> t' div 1000" if "t' \<le> t + 3599000"
    using that by linarith
  have late: "t div 1000 + 3600 \<le> t'' div 1000" if "t + 3600000 < t''"
    using that by linarith
  show ?thesis
    using early late by (auto simp: v)
qed

theorem verify_issued_token_witness:
  "(\<exists>p. jwt_verify ref_libs (Some (generateToken ref_libs 7 5000)) 5000 = Inr p \<and> jid p = 7 \<and>
        exp p = 3605) \<and>
   (\<exists>p. jwt_verify ref_libs (Some (generateToken ref_libs 7 5000)) 3604000 = Inr p \<and> jid p = 7) \<and>
   jwt_verify ref_libs (Some (generateToken ref_libs 7 5000)) 3605001 = Inl TokenExpiredError"
proof -
  have rt: "\<forall>p. jwt_decode ref_libs (jwt_encode ref_libs p) = Some p"
    by (simp add: ref_decode_encode)
  have ne: "\<forall>p. jwt_encode ref_libs p \<noteq> []"
    by (simp add: ref_encode_nonempty)
  from verify_issued_token [OF rt ne, of 7 5000 3604000 3605001] show ?thesis
    by simp
qed

section \<open>The payment stub\<close>

lemma payment_field_payment [simp]:
  "payment_field (payment h a) ''cardNumber'' = Scalar (JStr ''4111111111111111'')"
  "payment_field (payment h a) ''expiryDate'' = Scalar (JStr ''12/30'')"
  "payment_field (payment h a) ''cvv'' = Scalar (JStr ''123'')"
  "payment_field (payment h a) ''cardHolderName'' = h"
  "payment_field (payment h a) ''amount'' = a"
  by (simp_all add: payment_def payment_field_def)

text \<open>
  C8, as stated, fails, in three ways. The presence test is a truthiness test, so a
  request that carries all five fields with the amount 0 is answered 400. A request whose
  five fields are all truthy and whose card holder name is an object that cannot be
  converted to a string is answered 500 by the catch branch. And the transaction id is
  the clock reading, so two calls that end in the same millisecond get the same id.
\<close>

theorem payment_complete_request_not_200:
  "reply (processPayment [] (payment (Scalar (JStr ''A Driver'')) (Scalar (JNum 0))) 1000) =
     \<lparr>status = 400, json = Message ''Missing payment details.''\<rparr> \<and>
   reply (processPayment [] (payment (Composite None) (Scalar (JNum 25))) 1000) =
     \<lparr>status = 500, json = Message ''Payment failed. Please try again.''\<rparr> \<and>
   transactionId_of (json (reply (processPayment []
       (payment (Scalar (JStr ''A Driver'')) (Scalar (JNum 25))) 1000))) = Some ''TXN_1000'' \<and>
   transactionId_of (json (reply (processPayment []
       (payment (Scalar (JStr ''B Rider'')) (Scalar (JNum 40))) 1000))) = Some ''TXN_1000''"
  by (simp add: processPayment_def Let_def transactionId_of_def digit_char_def)

text \<open>
  C8, amended. A request in which one of the five fields is missing or falsy (empty
  string, 0, null, false) is answered 400 "Missing payment details." with no side
  effects: the collection is untouched and nothing is written to the console. A request
  in which all five are truthy and convert to strings is answered 200 with the amount
  echoed and the transaction id \<open>TXN_\<close> followed by the clock reading in milliseconds; two
  such requests whose clock readings differ get different transaction ids. A request in
  which all five are truthy and one does not convert to a string is answered 500. Card
  data is never persisted: no request changes the collection. What the success path
  does with the card number, the expiry and the CVV is to write them to the console,
  in the two lines the theorem gives.
\<close>

theorem processPayment_outcomes:
  "(\<not> has_payment_details b0 \<longrightarrow>
      processPayment db b0 now =
        \<lparr>store = db, reply = \<lparr>status = 400, json = Message ''Missing payment details.''\<rparr>,
         console = []\<rparr>) \<and>
   (has_payment_details b \<and> all_convert b \<longrightarrow>
      processPayment db b now =
        \<lparr>store = db,
         reply = \<lparr>status = 200,
                  json = Payment ''Payment processed successfully!'' (''TXN_'' @ show_nat now)
                           (payment_field b ''amount'') ''completed''\<rparr>,
         console =
           [[Lit ''Processing payment for '', Val (payment_field b ''cardHolderName''),
             Lit '' with amount '', Val (payment_field b ''amount'')],
            [Lit ''Card Number: '', Val (payment_field b ''cardNumber''), Lit '', Expiry: '',
             Val (payment_field b ''expiryDate''), Lit '', CVV: '',
             Val (payment_field b ''cvv'')]]\<rparr>) \<and>
   (has_payment_details b1 \<and> \<not> all_convert b1 \<longrightarrow>
      store (processPayment db b1 now) = db \<and>
      reply (processPayment db b1 now) =
        \<lparr>status = 500, json = Message ''Payment failed. Please try again.''\<rparr>) \<and>
   (has_payment_details b \<and> all_convert b \<and> has_payment_details b' \<and> all_convert b' \<and>
    now \<noteq> now' \<longrightarrow>
      transactionId_of (json (reply (processPayment db b now))) \<noteq>
      transactionId_of (json (reply (processPayment db' b' now')))) \<and>
   store (processPayment db b2 now) = db"
proof (intro conjI impI)
  assume "\<not> has_payment_details b0"
  then show "processPayment db b0 now =
        \<lparr>store = db, reply = \<lparr>status = 400, json = Message ''Missing payment details.''\<rparr>,
         console = []\<rparr>"
    by (auto simp: processPayment_def has_payment_details_def Let_def)
next
  assume "has_payment_details b \<and> all_convert b"
  then show "processPayment db b now =
        \<lparr>store = db,
         reply = \<lparr>status = 200,
                  json = Payment ''Payment processed successfully!'' (''TXN_'' @ show_nat now)
                           (payment_field b ''amount'') ''completed''\<rparr>,
         console =
           [[Lit ''Processing payment for '', Val (payment_field b ''cardHolderName''),
             Lit '' with amount '', Val (payment_field b ''amount'')],
            [Lit ''Card Number: '', Val (payment_field b ''cardNumber''), Lit '', Expiry: '',
             Val (payment_field b ''expiryDate''), Lit '', CVV: '',
             Val (payment_field b ''cvv'')]]\<rparr>"
    by (simp add: processPayment_def has_payment_details_def all_convert_def Let_def)
next
  assume h: "has_payment_details b1 \<and> \<not> all_convert b1"
  then show "store (processPayment db b1 now) = db"
    by (simp add: processPayment_def Let_def)
  from h show "reply (processPayment db b1 now) =
        \<lparr>status = 500, json = Message ''Payment failed. Please try again.''\<rparr>"
    by (auto simp: processPayment_def has_payment_details_def all_convert_def Let_def)
next
  assume "has_payment_details b \<and> all_convert b \<and> has_payment_details b' \<and> all_convert b' \<and>
    now \<noteq> now'"
  then show "transactionId_of (json (reply (processPayment db b now))) \<noteq>
      transactionId_of (json (reply (processPayment db' b' now')))"
    by (auto simp: processPayment_def has_payment_details_def all_convert_def Let_def
          transactionId_of_def dest: show_nat_inj)
next
  show "store (processPayment db b2 now) = db"
    by (simp add: processPayment_def Let_def)
qed

theorem processPayment_outcomes_witness:
  "processPayment [alice] [''amount'' \<mapsto> Scalar (JNum 25)] 1000 =
     \<lparr>store = [alice], reply = \<lparr>status = 400, json = Message ''Missing payment details.''\<rparr>,
      console = []\<rparr> \<and>
   processPayment [alice] (payment (Scalar (JStr ''A Driver'')) (Scalar (JNum (25 / 2)))) 1000 =
     \<lparr>store = [alice],
      reply = \<lparr>status = 200,
               json = Payment ''Payment processed successfully!'' ''TXN_1000''
                        (Scalar (JNum (25 / 2))) ''completed''\<rparr>,
      console =
        [[Lit ''Processing payment for '', Val (Scalar (JStr ''A Driver'')),
          Lit '' with amount '', Val (Scalar (JNum (25 / 2)))],
         [Lit ''Card Number: '', Val (Scalar (JStr ''4111111111111111'')), Lit '', Expiry: '',
          Val (Scalar (JStr ''12/30'')), Lit '', CVV: '', Val (Scalar (JStr ''123''))]]\<rparr> \<and>
   store (processPayment [alice] (payment (Composite None) (Scalar (JNum 25))) 1000) = [alice] \<and>
   reply (processPayment [alice] (payment (Composite None) (Scalar (JNum 25))) 1000) =
     \<lparr>status = 500, json = Message ''Payment failed. Please try again.''\<rparr> \<and>
   transactionId_of (json (reply (processPayment [alice]
       (payment (Scalar (JStr ''A Driver'')) (Scalar (JNum (25 / 2)))) 1000))) \<noteq>
   transactionId_of (json (reply (processPayment [alice]
       (payment (Scalar (JStr ''B Rider'')) (Scalar (JInf False))) 1001)))"
proof -
  let ?m = "[''amount'' \<mapsto> Scalar (JNum 25)]"
  let ?b = "payment (Scalar (JStr ''A Driver'')) (Scalar (JNum (25 / 2)))"
  let ?c = "payment (Composite None) (Scalar (JNum 25))"
  let ?d = "payment (Scalar (JStr ''B Rider'')) (Scalar (JInf False))"
  note T = processPayment_outcomes [of ?m "[alice]" 1000 ?b ?c ?d 1001 "[alice]" ?c]
  have h0: "\<not> has_payment_details ?m"
    by (simp add: has_payment_details_def payment_field_def)
  have h: "has_payment_details ?b" "all_convert ?b" "has_payment_details ?d" "all_convert ?d"
    "has_payment_details ?c" "\<not> all_convert ?c"
    by (simp_all add: has_payment_details_def all_convert_def)
  have n: "(1000::nat) \<noteq> 1001" by simp
  have s: "show_nat 1000 = ''1000''" by (simp add: digit_char_def)
  from T h0 have c1: "processPayment [alice] ?m 1000 =
     \<lparr>store = [alice], reply = \<lparr>status = 400, json = Message ''Missing payment details.''\<rparr>,
      console = []\<rparr>"
    by blast
  from T h have c2: "processPayment [alice] ?b 1000 =
        \<lparr>store = [alice],
         reply = \<lparr>status = 200,
                  json = Payment ''Payment processed successfully!'' (''TXN_'' @ show_nat 1000)
                           (payment_field ?b ''amount'') ''completed''\<rparr>,
         console =
           [[Lit ''Processing payment for '', Val (payment_field ?b ''cardHolderName''),
             Lit '' with amount '', Val (payment_field ?b ''amount'')],
            [Lit ''Card Number: '', Val (payment_field ?b ''cardNumber''), Lit '', Expiry: '',
             Val (payment_field ?b ''expiryDate''), Lit '', CVV: '',
             Val (payment_field ?b ''cvv'')]]\<rparr>"
    by blast
  from T h have c3: "store (processPayment [alice] ?c 1000) = [alice] \<and>
      reply (processPayment [alice] ?c 1000) =
        \<lparr>status = 500, json = Message ''Payment failed. Please try again.''\<rparr>"
    by blast
  from T h n have c4: "transactionId_of (json (reply (processPayment [alice] ?b 1000))) \<noteq>
      transactionId_of (json (reply (processPayment [alice] ?d 1001)))"
    by blast
  from c2 have c2': "processPayment [alice] ?b 1000 =
     \<lparr>store = [alice],
      reply = \<lparr>status = 200,
               json = Payment ''Payment processed successfully!'' ''TXN_1000''
                        (Scalar (JNum (25 / 2))) ''completed''\<rparr>,
      console =
        [[Lit ''Processing payment for '', Val (Scalar (JStr ''A Driver'')),
          Lit '' with amount '', Val (Scalar (JNum (25 / 2)))],
         [Lit ''Card Number: '', Val (Scalar (JStr ''4111111111111111'')), Lit '', Expiry: '',
          Val (Scalar (JStr ''12/30'')), Lit '', CVV: '', Val (Scalar (JStr ''123''))]]\<rparr>"
    by (simp only: payment_field_payment s append.simps)
  from c1 c2' c3 c4 show ?thesis
    by blast
qed

section \<open>Documents, change tracking and saving\<close>

lemma find_updateOne:
  "find (\<lambda>v. uid v = uid u') db = Some u \<Longrightarrow> find (\<lambda>v. uid v = uid u') (updateOne db u') = Some u'"
  by (induction db) (auto split: if_splits)

lemma findById_updateOne:
  "findById db (Some k) = Some u \<Longrightarrow> uid u' = k \<Longrightarrow> findById (updateOne db u') (Some k) = Some u'"
  using find_updateOne [of u' db u] by (auto simp: findById_def)

lemma findById_uid: "findById db i = Some u \<Longrightarrow> i = Some (uid u)"
  by (auto simp: findById_def find_Some_iff split: option.splits)

lemma save_existing:
  assumes "\<not> isNew d" and "save L db salt d = Inr (db', u')"
  shows "db' = updateOne db u' \<and>
         u' = (data d)\<lparr>password :=
                 (if isModified d ''password''
                  then map_option (\<lambda>p. bcrypt_hash L p salt) (password (data d))
                  else password (data d))\<rparr>"
  using assms
  by (auto simp: save_def pre_save_def Let_def split: if_splits option.splits sum.splits)

lemma data_mark [simp]: "data (mark d p c) = data d"
  by (simp add: mark_def)

lemma isNew_mark [simp]: "isNew (mark d p c) = isNew d"
  by (simp add: mark_def)

lemma modified_mark:
  "modified (mark d p c) = (if isNew d \<or> c then insert p (modified d) else modified d)"
  by (simp add: mark_def)

lemma isModified_mark [simp]:
  "isModified (mark d p c) q = (isModified d q \<or> (p = q \<and> (isNew d \<or> c)))"
  by (auto simp: mark_def isModified_def)

lemma setters_data [simp]:
  "data (set_username d v) = (data d)\<lparr>username := v\<rparr>"
  "data (set_email d v) = (data d)\<lparr>email := v\<rparr>"
  "data (set_firstName d v) = (data d)\<lparr>firstName := v\<rparr>"
  "data (set_lastName d v) = (data d)\<lparr>lastName := v\<rparr>"
  "data (set_phoneNumber d v) = (data d)\<lparr>phoneNumber := v\<rparr>"
  "data (set_password d v) = (data d)\<lparr>password := v\<rparr>"
  by (simp_all add: set_username_def set_email_def set_firstName_def set_lastName_def
        set_phoneNumber_def set_password_def)

lemma setters_isNew [simp]:
  "isNew (set_username d v) = isNew d"
  "isNew (set_email d v) = isNew d"
  "isNew (set_firstName d v) = isNew d"
  "isNew (set_lastName d v) = isNew d"
  "isNew (set_phoneNumber d v) = isNew d"
  "isNew (set_password d v) = isNew d"
  by (simp_all add: set_username_def set_email_def set_firstName_def set_lastName_def
        set_phoneNumber_def set_password_def)

lemma isModified_data_update [simp]: "isModified (d\<lparr>data := x\<rparr>) q = isModified d q"
  by (simp add: isModified_def)

lemma setters_isModified [simp]:
  "isModified (set_username d v) q =
     (isModified d q \<or> (q = ''username'' \<and> (isNew d \<or> v \<noteq> username (data d))))"
  "isModified (set_email d v) q =
     (isModified d q \<or> (q = ''email'' \<and> (isNew d \<or> v \<noteq> email (data d))))"
  "isModified (set_firstName d v) q =
     (isModified d q \<or> (q = ''firstName'' \<and> (isNew d \<or> v \<noteq> firstName (data d))))"
  "isModified (set_lastName d v) q =
     (isModified d q \<or> (q = ''lastName'' \<and> (isNew d \<or> v \<noteq> lastName (data d))))"
  "isModified (set_phoneNumber d v) q =
     (isModified d q \<or> (q = ''phoneNumber'' \<and> (isNew d \<or> v \<noteq> phoneNumber (data d))))"
  "isModified (set_password d v) q =
     (isModified d q \<or> (q = ''password'' \<and> (isNew d \<or> v \<noteq> password (data d))))"
  unfolding set_username_def set_email_def set_firstName_def set_lastName_def
    set_phoneNumber_def set_password_def
  by (simp_all add: eq_commute [of _ q])

lemma isModified_fresh [simp]: "isModified \<lparr>data = u, isNew = n, modified = {}\<rparr> q = False"
  by (simp add: isModified_def)

lemma assign_profile_isNew: "\<not> isNew (assign_profile L u b)"
  by (simp add: assign_profile_def Let_def)

lemma assign_profile_data:
  "data (assign_profile L u b) =
     u\<lparr>username := or_stored L (field b ''username'') (username u),
       email := or_stored L (field b ''email'') (email u),
       firstName := or_stored L (field b ''firstName'') (firstName u),
       lastName := or_stored L (field b ''lastName'') (lastName u),
       phoneNumber := or_stored L (field b ''phoneNumber'') (phoneNumber u),
       password := (if truthy (field b ''password'') then castString L (field b ''password'')
                    else password u)\<rparr>"
  by (simp add: assign_profile_def Let_def)

lemma assign_profile_modified:
  "isModified (assign_profile L u b) ''password'' =
     (truthy (field b ''password'') \<and> castString L (field b ''password'') \<noteq> password u)"
  "isModified (assign_profile L u b) ''username'' =
     (or_stored L (field b ''username'') (username u) \<noteq> username u)"
  "isModified (assign_profile L u b) ''email'' =
     (or_stored L (field b ''email'') (email u) \<noteq> email u)"
  by (simp_all add: assign_profile_def Let_def)

lemma save_assign_profile:
  assumes "save L db salt (assign_profile L u b) = Inr (db', u')"
  shows "db' = updateOne db u'"
    and "u' = u\<lparr>username := or_stored L (field b ''username'') (username u),
               email := or_stored L (field b ''email'') (email u),
               firstName := or_stored L (field b ''firstName'') (firstName u),
               lastName := or_stored L (field b ''lastName'') (lastName u),
               phoneNumber := or_stored L (field b ''phoneNumber'') (phoneNumber u),
               password :=
                 (if truthy (field b ''password'') \<and>
                     castString L (field b ''password'') \<noteq> password u
                  then map_option (\<lambda>p. bcrypt_hash L p salt) (castString L (field b ''password''))
                  else password u)\<rparr>"
proof -
  from save_existing [OF assign_profile_isNew assms]
  have a: "db' = updateOne db u'"
    and b: "u' = (data (assign_profile L u b))\<lparr>password :=
                 (if isModified (assign_profile L u b) ''password''
                  then map_option (\<lambda>p. bcrypt_hash L p salt) (password (data (assign_profile L u b)))
                  else password (data (assign_profile L u b)))\<rparr>"
    by simp_all
  show "db' = updateOne db u'" by (rule a)
  show "u' = u\<lparr>username := or_stored L (field b ''username'') (username u),
               email := or_stored L (field b ''email'') (email u),
               firstName := or_stored L (field b ''firstName'') (firstName u),
               lastName := or_stored L (field b ''lastName'') (lastName u),
               phoneNumber := or_stored L (field b ''phoneNumber'') (phoneNumber u),
               password :=
                 (if truthy (field b ''password'') \<and>
                     castString L (field b ''password'') \<noteq> password u
                  then map_option (\<lambda>p. bcrypt_hash L p salt) (castString L (field b ''password''))
                  else password u)\<rparr>"
    unfolding b by (simp add: assign_profile_data assign_profile_modified)
qed

lemma update_not_found:
  "findById db (user r) = None \<Longrightarrow> store (updateUserProfile L db r b salt now) = db"
  by (simp add: updateUserProfile_def)

lemma update_stored:
  assumes "findById db (user r) = Some u"
  shows "store (updateUserProfile L db r b salt now) = db \<or>
         findById (store (updateUserProfile L db r b salt now)) (user r) =
           Some (u\<lparr>username := or_stored L (field b ''username'') (username u),
               email := or_stored L (field b ''email'') (email u),
               firstName := or_stored L (field b ''firstName'') (firstName u),
               lastName := or_stored L (field b ''lastName'') (lastName u),
               phoneNumber := or_stored L (field b ''phoneNumber'') (phoneNumber u),
               password :=
                 (if truthy (field b ''password'') \<and>
                     castString L (field b ''password'') \<noteq> password u
                  then map_option (\<lambda>p. bcrypt_hash L p salt) (castString L (field b ''password''))
                  else password u)\<rparr>)"
proof (cases "save L db salt (assign_profile L u b)")
  case (Inl e)
  with assms show ?thesis by (simp add: updateUserProfile_def)
next
  case (Inr x)
  obtain db' u' where x: "x = (db', u')" by (cases x)
  from Inr x have s: "save L db salt (assign_profile L u b) = Inr (db', u')" by simp
  from assms have k: "user r = Some (uid u)" by (rule findById_uid)
  from save_assign_profile [OF s] have d: "db' = updateOne db u'"
    and e: "u' = u\<lparr>username := or_stored L (field b ''username'') (username u),
               email := or_stored L (field b ''email'') (email u),
               firstName := or_stored L (field b ''firstName'') (firstName u),
               lastName := or_stored L (field b ''lastName'') (lastName u),
               phoneNumber := or_stored L (field b ''phoneNumber'') (phoneNumber u),
               password :=
                 (if truthy (field b ''password'') \<and>
                     castString L (field b ''password'') \<noteq> password u
                  then map_option (\<lambda>p. bcrypt_hash L p salt) (castString L (field b ''password''))
                  else password u)\<rparr>" by simp_all
  from e have i: "uid u' = uid u" by simp
  from assms k have "findById db (Some (uid u)) = Some u" by simp
  from findById_updateOne [OF this i] have "findById (updateOne db u') (user r) = Some u'"
    by (simp add: k)
  moreover from assms s d have "store (updateUserProfile L db r b salt now) = updateOne db u'"
    by (simp add: updateUserProfile_def)
  ultimately show ?thesis using e by simp
qed

lemma update_keeps:
  "\<not> truthy (field b ''username'') \<Longrightarrow>
     map_option username (findById (store (updateUserProfile L db r b salt now)) (user r)) =
     map_option username (findById db (user r))"
  "\<not> truthy (field b ''email'') \<Longrightarrow>
     map_option email (findById (store (updateUserProfile L db r b salt now)) (user r)) =
     map_option email (findById db (user r))"
  "\<not> truthy (field b ''firstName'') \<Longrightarrow>
     map_option firstName (findById (store (updateUserProfile L db r b salt now)) (user r)) =
     map_option firstName (findById db (user r))"
  "\<not> truthy (field b ''lastName'') \<Longrightarrow>
     map_option lastName (findById (store (updateUserProfile L db r b salt now)) (user r)) =
     map_option lastName (findById db (user r))"
  "\<not> truthy (field b ''phoneNumber'') \<Longrightarrow>
     map_option phoneNumber (findById (store (updateUserProfile L db r b salt now)) (user r)) =
     map_option phoneNumber (findById db (user r))"
  "\<not> truthy (field b ''password'') \<Longrightarrow>
     map_option password (findById (store (updateUserProfile L db r b salt now)) (user r)) =
     map_option password (findById db (user r))"
proof -
  consider "findById db (user r) = None" | u where "findById db (user r) = Some u"
    by (cases "findById db (user r)") auto
  note cs = this
  show "\<not> truthy (field b ''username'') \<Longrightarrow>
     map_option username (findById (store (updateUserProfile L db r b salt now)) (user r)) =
     map_option username (findById db (user r))"
    using cs update_not_found [of db r L b salt now] update_stored [of db r _ L b salt now]
    by (cases) (auto simp: or_stored_def)
  show "\<not> truthy (field b ''email'') \<Longrightarrow>
     map_option email (findById (store (updateUserProfile L db r b salt now)) (user r)) =
     map_option email (findById db (user r))"
    using cs update_not_found [of db r L b salt now] update_stored [of db r _ L b salt now]
    by (cases) (auto simp: or_stored_def)
  show "\<not> truthy (field b ''firstName'') \<Longrightarrow>
     map_option firstName (findById (store (updateUserProfile L db r b salt now)) (user r)) =
     map_option firstName (findById db (user r))"
    using cs update_not_found [of db r L b salt now] update_stored [of db r _ L b salt now]
    by (cases) (auto simp: or_stored_def)
  show "\<not> truthy (field b ''lastName'') \<Longrightarrow>
     map_option lastName (findById (store (updateUserProfile L db r b salt now)) (user r)) =
     map_option lastName (findById db (user r))"
    using cs update_not_found [of db r L b salt now] update_stored [of db r _ L b salt now]
    by (cases) (auto simp: or_stored_def)
  show "\<not> truthy (field b ''phoneNumber'') \<Longrightarrow>
     map_option phoneNumber (findById (store (updateUserProfile L db r b salt now)) (user r)) =
     map_option phoneNumber (findById db (user r))"
    using cs update_not_found [of db r L b salt now] update_stored [of db r _ L b salt now]
    by (cases) (auto simp: or_stored_def)
  show "\<not> truthy (field b ''password'') \<Longrightarrow>
     map_option password (findById (store (updateUserProfile L db r b salt now)) (user r)) =
     map_option password (findById db (user r))"
    using cs update_not_found [of db r L b salt now] update_stored [of db r _ L b salt now]
    by (cases) (auto simp: or_stored_def)
qed

lemma field_omit: "field (b(k := None)) k' = (if k' = k then JUndefined else field b k')"
  by (simp add: field_def)

lemma or_stored_omit:
  "\<not> truthy (field b k) \<Longrightarrow> or_stored L (field (b(k := None)) k') old = or_stored L (field b k') old"
  by (simp add: or_stored_def field_omit)

lemma truthy_omit:
  "\<not> truthy (field b k) \<Longrightarrow> truthy (field (b(k := None)) k') = truthy (field b k')"
  by (simp add: field_omit)

lemma cast_omit:
  "\<not> truthy (field b k) \<Longrightarrow> truthy (field b k') \<Longrightarrow> field (b(k := None)) k' = field b k'"
  by (auto simp: field_omit)

lemma assign_profile_omit:
  assumes "\<not> truthy (field b k)"
  shows "assign_profile L u (b(k := None)) = assign_profile L u b"
  using assms
  by (simp add: assign_profile_def or_stored_omit truthy_omit cast_omit cong: if_cong)

lemma findById_alice [simp]: "findById [alice] (Some 7) = Some alice"
  by (simp add: findById_def alice_def)

lemma user_alice_req [simp]: "user alice_req = Some 7"
  by (simp add: alice_req_def)

section \<open>Updating a profile\<close>

text \<open>
  C5. For each of username, email, firstName, lastName, phoneNumber and password: when
  the field is absent from the body of a profile update, the stored user named by the
  request has the same value of that field after the update as before it.
\<close>

theorem profile_update_absent_field_kept:
  "(field b ''username'' = JUndefined \<longrightarrow>
      map_option username (findById (store (updateUserProfile L db r b salt now)) (user r)) =
      map_option username (findById db (user r))) \<and>
   (field b ''email'' = JUndefined \<longrightarrow>
      map_option email (findById (store (updateUserProfile L db r b salt now)) (user r)) =
      map_option email (findById db (user r))) \<and>
   (field b ''firstName'' = JUndefined \<longrightarrow>
      map_option firstName (findById (store (updateUserProfile L db r b salt now)) (user r)) =
      map_option firstName (findById db (user r))) \<and>
   (field b ''lastName'' = JUndefined \<longrightarrow>
      map_option lastName (findById (store (updateUserProfile L db r b salt now)) (user r)) =
      map_option lastName (findById db (user r))) \<and>
   (field b ''phoneNumber'' = JUndefined \<longrightarrow>
      map_option phoneNumber (findById (store (updateUserProfile L db r b salt now)) (user r)) =
      map_option phoneNumber (findById db (user r))) \<and>
   (field b ''password'' = JUndefined \<longrightarrow>
      map_option password (findById (store (updateUserProfile L db r b salt now)) (user r)) =
      map_option password (findById db (user r)))"
  by (simp add: update_keeps)

theorem profile_update_absent_field_kept_witness:
  "map_option username (findById (store (updateUserProfile ref_libs [alice] alice_req
       [''firstName'' \<mapsto> JStr ''Al'', ''password'' \<mapsto> JStr ''new''] ''s2'' 5000)) (Some 7)) =
     Some (Some ''alice'') \<and>
   map_option email (findById (store (updateUserProfile ref_libs [alice] alice_req
       [''firstName'' \<mapsto> JStr ''Al'', ''password'' \<mapsto> JStr ''new''] ''s2'' 5000)) (Some 7)) =
     Some (Some ''a@x'') \<and>
   map_option lastName (findById (store (updateUserProfile ref_libs [alice] alice_req
       [''firstName'' \<mapsto> JStr ''Al'', ''password'' \<mapsto> JStr ''new''] ''s2'' 5000)) (Some 7)) =
     Some None \<and>
   map_option phoneNumber (findById (store (updateUserProfile ref_libs [alice] alice_req
       [''firstName'' \<mapsto> JStr ''Al'', ''password'' \<mapsto> JStr ''new''] ''s2'' 5000)) (Some 7)) =
     Some None \<and>
   map_option firstName (findById (store (updateUserProfile ref_libs [alice] alice_req
       [''username'' \<mapsto> JStr ''alicia''] ''s2'' 5000)) (Some 7)) =
     Some None \<and>
   map_option password (findById (store (updateUserProfile ref_libs [alice] alice_req
       [''username'' \<mapsto> JStr ''alicia''] ''s2'' 5000)) (Some 7)) =
     Some (Some ''s1old'')"
proof -
  let ?b1 = "[''firstName'' \<mapsto> JStr ''Al'', ''password'' \<mapsto> JStr ''new'']"
  let ?b2 = "[''username'' \<mapsto> JStr ''alicia'']"
  have h1: "field ?b1 ''username'' = JUndefined" "field ?b1 ''email'' = JUndefined"
    "field ?b1 ''lastName'' = JUndefined" "field ?b1 ''phoneNumber'' = JUndefined"
    by (simp_all add: field_def)
  have h2: "field ?b2 ''firstName'' = JUndefined" "field ?b2 ''password'' = JUndefined"
    by (simp_all add: field_def)
  have a: "username alice = Some ''alice''" "email alice = Some ''a@x''" "lastName alice = None"
    "phoneNumber alice = None" "firstName alice = None" "password alice = Some ''s1old''"
    by (simp_all add: alice_def)
  from profile_update_absent_field_kept [of ?b1 ref_libs "[alice]" alice_req "''s2''" 5000] h1
    profile_update_absent_field_kept [of ?b2 ref_libs "[alice]" alice_req "''s2''" 5000] h2
  show ?thesis
    by (simp add: a)
qed

text \<open>
  C9. A field whose value in the body is falsy (the empty string, null, false, 0) is
  treated as if it had been left out: the handler ends with the same collection and the
  same response as for the body without the field, and the stored value of the field
  (for password, the stored hash) is what it was before.
\<close>

theorem profile_update_falsy_as_omitted:
  assumes "\<not> truthy (field b k)"
  shows "updateUserProfile L db r (b(k := None)) salt now = updateUserProfile L db r b salt now \<and>
   (k = ''username'' \<longrightarrow>
      map_option username (findById (store (updateUserProfile L db r b salt now)) (user r)) =
      map_option username (findById db (user r))) \<and>
   (k = ''email'' \<longrightarrow>
      map_option email (findById (store (updateUserProfile L db r b salt now)) (user r)) =
      map_option email (findById db (user r))) \<and>
   (k = ''firstName'' \<longrightarrow>
      map_option firstName (findById (store (updateUserProfile L db r b salt now)) (user r)) =
      map_option firstName (findById db (user r))) \<and>
   (k = ''lastName'' \<longrightarrow>
      map_option lastName (findById (store (updateUserProfile L db r b salt now)) (user r)) =
      map_option lastName (findById db (user r))) \<and>
   (k = ''phoneNumber'' \<longrightarrow>
      map_option phoneNumber (findById (store (updateUserProfile L db r b salt now)) (user r)) =
      map_option phoneNumber (findById db (user r))) \<and>
   (k = ''password'' \<longrightarrow>
      map_option password (findById (store (updateUserProfile L db r b salt now)) (user r)) =
      map_option password (findById db (user r)))"
proof -
  have "updateUserProfile L db r (b(k := None)) salt now = updateUserProfile L db r b salt now"
    by (simp add: updateUserProfile_def assign_profile_omit [OF assms] cong: option.case_cong)
  with assms show ?thesis
    by (auto simp: update_keeps)
qed

theorem profile_update_falsy_as_omitted_witness:
  "updateUserProfile ref_libs [alice] alice_req
     ([''firstName'' \<mapsto> JStr '''', ''lastName'' \<mapsto> JStr ''Smith''](''firstName'' := None))
     ''s2'' 5000 =
   updateUserProfile ref_libs [alice] alice_req
     [''firstName'' \<mapsto> JStr '''', ''lastName'' \<mapsto> JStr ''Smith''] ''s2'' 5000 \<and>
   map_option firstName (findById (store (updateUserProfile ref_libs [alice] alice_req
       [''firstName'' \<mapsto> JStr '''', ''lastName'' \<mapsto> JStr ''Smith''] ''s2'' 5000)) (Some 7)) =
     Some None \<and>
   map_option password (findById (store (updateUserProfile ref_libs [alice] alice_req
       [''password'' \<mapsto> JStr ''''] ''s2'' 5000)) (Some 7)) =
     Some (Some ''s1old'')"
proof -
  let ?b1 = "[''firstName'' \<mapsto> JStr '''', ''lastName'' \<mapsto> JStr ''Smith'']"
  let ?b2 = "[''password'' \<mapsto> JStr '''']"
  have h1: "\<not> truthy (field ?b1 ''firstName'')"
    by (simp add: field_def)
  have h2: "\<not> truthy (field ?b2 ''password'')"
    by (simp add: field_def)
  have a: "firstName alice = None" "password alice = Some ''s1old''"
    by (simp_all add: alice_def)
  from profile_update_falsy_as_omitted [OF h1, of ref_libs "[alice]" alice_req "''s2''" 5000]
    profile_update_falsy_as_omitted [OF h2, of ref_libs "[alice]" alice_req "''s2''" 5000]
  show ?thesis
    by (simp add: a)
qed

section \<open>Registration\<close>

lemma findOne_email_None:
  "(\<forall>v\<in>set db. email v \<noteq> castString L e) \<Longrightarrow> findOne_email L db e = None"
  by (simp add: findOne_email_def find_None_iff)

lemma findOne_email_Some:
  "(\<exists>v\<in>set db. email v = castString L e) \<Longrightarrow> \<exists>u. findOne_email L db e = Some u"
  by (cases "findOne_email L db e") (auto simp: findOne_email_def find_None_iff)

lemma create_fresh:
  assumes "u \<noteq> []" "e \<noteq> []" "p \<noteq> []"
    and "\<forall>v\<in>set db. uid v \<noteq> i \<and> username v \<noteq> Some u \<and> email v \<noteq> Some e"
  shows "create L db i salt (JStr u) (JStr e) (JStr p) =
           Inr (db @ [\<lparr>uid = i, username = Some u, email = Some e,
                        password = Some (bcrypt_hash L p salt), firstName = None,
                        lastName = None, phoneNumber = None\<rparr>],
                \<lparr>uid = i, username = Some u, email = Some e,
                  password = Some (bcrypt_hash L p salt), firstName = None,
                  lastName = None, phoneNumber = None\<rparr>)"
  using assms
  by (simp add: create_def save_def validate_def required_ok_def pre_save_def isModified_def
        list_ex_iff Let_def)

lemma create_taken:
  assumes "\<exists>v\<in>set db. username v = castString L un \<or> email v = castString L em"
  shows "create L db i salt un em pw = Inl ValidationError \<or>
         create L db i salt un em pw = Inl DuplicateKey"
  using assms
  by (auto simp: create_def save_def pre_save_def isModified_def list_ex_iff validate_def
        required_ok_def Let_def split: option.splits)

lemma register_fresh:
  assumes "field b ''username'' = JStr u" "field b ''email'' = JStr e"
    "field b ''password'' = JStr p" "u \<noteq> []" "e \<noteq> []" "p \<noteq> []"
    and "\<forall>v\<in>set db. uid v \<noteq> i \<and> username v \<noteq> Some u \<and> email v \<noteq> Some e"
  shows "registerUser L db b i salt now =
           \<lparr>store = db @ [\<lparr>uid = i, username = Some u, email = Some e,
                        password = Some (bcrypt_hash L p salt), firstName = None,
                        lastName = None, phoneNumber = None\<rparr>],
            reply = \<lparr>status = 201,
                     json = AuthUser i (Some u) (Some e) (generateToken L i now)\<rparr>,
            console = []\<rparr>"
proof -
  from assms(7) have "findOne_email L db (JStr e) = None"
    by (intro findOne_email_None) simp
  with create_fresh [OF assms(4-7), of L salt] assms(1-3) show ?thesis
    by (simp add: registerUser_def Let_def)
qed

lemma register_email_taken:
  assumes "\<exists>v\<in>set db. email v = castString L (field b ''email'')"
  shows "registerUser L db b i salt now =
           \<lparr>store = db, reply = \<lparr>status = 400, json = Message ''User already exists''\<rparr>,
            console = []\<rparr>"
  using findOne_email_Some [OF assms] by (auto simp: registerUser_def Let_def)

lemma register_taken:
  assumes "\<exists>v\<in>set db. username v = castString L (field b ''username'') \<or>
                       email v = castString L (field b ''email'')"
  shows "store (registerUser L db b i salt now) = db \<and>
         (status (reply (registerUser L db b i salt now)) = 400 \<or>
          status (reply (registerUser L db b i salt now)) = 500)"
  using create_taken [OF assms, of i salt "field b ''password''"]
  by (auto simp: registerUser_def Let_def split: option.splits)

lemma field_signup [simp]:
  "field (signup u e p) ''username'' = JStr u"
  "field (signup u e p) ''email'' = JStr e"
  "field (signup u e p) ''password'' = JStr p"
  by (simp_all add: signup_def field_def)

lemma alice_sel [simp]:
  "uid alice = 7" "username alice = Some ''alice''" "email alice = Some ''a@x''"
  "password alice = Some ''s1old''" "firstName alice = None" "lastName alice = None"
  "phoneNumber alice = None"
  by (simp_all add: alice_def)

lemma register_two_users:
  assumes b1: "field b1 ''username'' = JStr u1" "field b1 ''email'' = JStr e1"
      "field b1 ''password'' = JStr p1" "u1 \<noteq> []" "e1 \<noteq> []" "p1 \<noteq> []"
    and b2: "field b2 ''username'' = JStr u2" "field b2 ''email'' = JStr e2"
      "field b2 ''password'' = JStr p2" "u2 \<noteq> []" "e2 \<noteq> []" "p2 \<noteq> []"
    and ne: "u1 \<noteq> u2" "e1 \<noteq> e2" "i1 \<noteq> i2"
    and fresh: "\<forall>v\<in>set db. uid v \<noteq> i1 \<and> uid v \<noteq> i2 \<and> username v \<noteq> Some u1 \<and>
       username v \<noteq> Some u2 \<and> email v \<noteq> Some e1 \<and> email v \<noteq> Some e2"
  shows "reply (registerUser L db b1 i1 s1 t1) =
           \<lparr>status = 201, json = AuthUser i1 (Some u1) (Some e1) (generateToken L i1 t1)\<rparr>"
    and "reply (registerUser L (store (registerUser L db b1 i1 s1 t1)) b2 i2 s2 t2) =
           \<lparr>status = 201, json = AuthUser i2 (Some u2) (Some e2) (generateToken L i2 t2)\<rparr>"
proof -
  let ?r1 = "\<lparr>uid = i1, username = Some u1, email = Some e1,
                 password = Some (bcrypt_hash L p1 s1), firstName = None, lastName = None,
                 phoneNumber = None\<rparr>"
  from fresh have f1: "\<forall>v\<in>set db. uid v \<noteq> i1 \<and> username v \<noteq> Some u1 \<and> email v \<noteq> Some e1"
    by blast
  from register_fresh [OF b1 f1] have o1: "registerUser L db b1 i1 s1 t1 =
      \<lparr>store = db @ [?r1],
       reply = \<lparr>status = 201, json = AuthUser i1 (Some u1) (Some e1) (generateToken L i1 t1)\<rparr>,
       console = []\<rparr>" .
  from fresh ne have f2:
    "\<forall>v\<in>set (db @ [?r1]). uid v \<noteq> i2 \<and> username v \<noteq> Some u2 \<and> email v \<noteq> Some e2"
    by auto
  from register_fresh [OF b2 f2] have o2: "registerUser L (db @ [?r1]) b2 i2 s2 t2 =
      \<lparr>store = (db @ [?r1]) @ [\<lparr>uid = i2, username = Some u2, email = Some e2,
                 password = Some (bcrypt_hash L p2 s2), firstName = None, lastName = None,
                 phoneNumber = None\<rparr>],
       reply = \<lparr>status = 201, json = AuthUser i2 (Some u2) (Some e2) (generateToken L i2 t2)\<rparr>,
       console = []\<rparr>" .
  show "reply (registerUser L db b1 i1 s1 t1) =
           \<lparr>status = 201, json = AuthUser i1 (Some u1) (Some e1) (generateToken L i1 t1)\<rparr>"
    by (simp add: o1)
  show "reply (registerUser L (store (registerUser L db b1 i1 s1 t1)) b2 i2 s2 t2) =
           \<lparr>status = 201, json = AuthUser i2 (Some u2) (Some e2) (generateToken L i2 t2)\<rparr>"
    by (simp add: o1 o2)
qed

text \<open>
  C1 (the code departs from it). The handler looks for the email only. A request whose
  username is taken and whose email is new reaches \<^verbatim>\<open>User.create\<close>, the unique index
  rejects the write, and the catch branch answers 500 with the error's text, where the
  claim says 400; nothing is stored. The sibling case, a taken email, is answered 400
  "User already exists" (\<open>register_email_taken\<close>), and two registrations with fresh names
  and emails both succeed (\<open>register_two_users\<close>).
\<close>

theorem register_duplicate_username_500:
  "registerUser ref_libs [alice]
     [''username'' \<mapsto> JStr ''alice'', ''email'' \<mapsto> JStr ''b@x'', ''password'' \<mapsto> JStr ''pw'']
     8 ''s2'' 5000 =
   \<lparr>store = [alice], reply = \<lparr>status = 500, json = ErrorMessage DuplicateKey\<rparr>, console = []\<rparr>"
  by (simp add: registerUser_def field_def findOne_email_def alice_def create_def save_def
        validate_def required_ok_def pre_save_def isModified_def Let_def)

section \<open>Login\<close>

lemma login_unknown_email:
  assumes "findOne_email L db (field b ''email'') = None"
  shows "loginUser L db b now =
           \<lparr>store = db, reply = \<lparr>status = 401, json = Message ''Invalid email or password''\<rparr>,
            console = []\<rparr>"
  using assms by (simp add: loginUser_def Let_def)

lemma login_known_email:
  assumes "findOne_email L db (field b ''email'') = Some u" and "password u = Some h"
    and "field b ''password'' = JStr p"
  shows "loginUser L db b now =
           \<lparr>store = db,
            reply = (if bcrypt_check L p h
                     then \<lparr>status = 200,
                           json = AuthUser (uid u) (username u) (email u)
                                    (generateToken L (uid u) now)\<rparr>
                     else \<lparr>status = 401, json = Message ''Invalid email or password''\<rparr>),
            console = []\<rparr>"
  using assms by (simp add: loginUser_def Let_def bcrypt_compare_def)

lemma login_wrong_string_password:
  assumes "findOne_email L db (field b ''email'') = Some u" and "password u = Some h"
    and "field b ''password'' = JStr p" and "\<not> bcrypt_check L p h"
    and "findOne_email L db (field b' ''email'') = None"
  shows "reply (loginUser L db b now) =
           \<lparr>status = 401, json = Message ''Invalid email or password''\<rparr> \<and>
         reply (loginUser L db b' now') = reply (loginUser L db b now)"
  using assms by (simp add: login_unknown_email login_known_email)

text \<open>
  C4 (the code departs from it). A login request for a stored email whose password is
  not a string (a JSON number, or no password at all) is answered 500 with bcryptjs's
  error, because \<^verbatim>\<open>bcrypt.compare\<close> rejects its argument; the same request for an unknown
  email is answered 401. The two responses tell whether the email exists. For a password
  that is a string and does not verify, the two responses are the same
  (\<open>login_wrong_string_password\<close>).
\<close>

theorem login_non_string_password_reveals_account:
  "reply (loginUser L [alice] [''email'' \<mapsto> JStr ''a@x'', ''password'' \<mapsto> JNum 123456] now) =
     \<lparr>status = 500, json = ErrorMessage IllegalArguments\<rparr> \<and>
   reply (loginUser L [alice] [''email'' \<mapsto> JStr ''nobody@x'', ''password'' \<mapsto> JNum 123456]
            now) =
     \<lparr>status = 401, json = Message ''Invalid email or password''\<rparr> \<and>
   reply (loginUser L [alice] [''email'' \<mapsto> JStr ''a@x''] now) =
     \<lparr>status = 500, json = ErrorMessage IllegalArguments\<rparr> \<and>
   reply (loginUser L [alice] [''email'' \<mapsto> JStr ''nobody@x''] now) =
     \<lparr>status = 401, json = Message ''Invalid email or password''\<rparr>"
  by (simp add: loginUser_def Let_def field_def findOne_email_def bcrypt_compare_def)

section \<open>Password hashing\<close>

lemma find_email_updateOne:
  assumes "find (\<lambda>v. uid v = uid u') db = Some u"
    and "\<forall>v\<in>set db. uid v \<noteq> uid u' \<longrightarrow> email v \<noteq> email u'"
  shows "find (\<lambda>v. email v = email u') (updateOne db u') = Some u'"
  using assms by (induction db) (auto split: if_splits)

lemma save_existing_unique:
  assumes "\<not> isNew d" and "save L db salt d = Inr (db', u')" and "isModified d ''email''"
  shows "\<forall>v\<in>set db. uid v \<noteq> uid u' \<longrightarrow> email v \<noteq> email u'"
  using assms
  by (auto simp: save_def pre_save_def Let_def list_ex_iff isModified_def
           split: if_splits option.splits sum.splits)

lemma distinct_email_others:
  assumes "distinct (map email db)" and "find (\<lambda>v. uid v = k) db = Some u"
  shows "\<forall>v\<in>set db. uid v \<noteq> k \<longrightarrow> email v \<noteq> email u"
proof (intro ballI impI)
  fix v assume v: "v \<in> set db" and n: "uid v \<noteq> k"
  from assms(2) have u: "u \<in> set db" and k: "uid u = k"
    by (auto simp: find_Some_iff)
  from n k have "v \<noteq> u" by auto
  with assms(1) u v show "email v \<noteq> email u"
    by (auto simp: distinct_map inj_on_def)
qed

lemma update_ok_saved:
  assumes "findById db (user r) = Some u"
    and "status (reply (updateUserProfile L db r b salt now)) = 200"
  shows "\<exists>u'. save L db salt (assign_profile L u b) = Inr (updateOne db u', u') \<and>
              store (updateUserProfile L db r b salt now) = updateOne db u'"
proof (cases "save L db salt (assign_profile L u b)")
  case (Inl e)
  with assms show ?thesis by (simp add: updateUserProfile_def)
next
  case (Inr x)
  obtain db' u' where x: "x = (db', u')" by (cases x)
  from Inr x have s: "save L db salt (assign_profile L u b) = Inr (db', u')" by simp
  from save_assign_profile(1) [OF s] have "db' = updateOne db u'" .
  with s assms(1) show ?thesis by (simp add: updateUserProfile_def)
qed

lemma update_password_then_login:
  assumes f: "findById db (user r) = Some u" and d: "distinct (map email db)"
    and pw: "field b ''password'' = JStr p" "p \<noteq> []" "Some p \<noteq> password u"
    and ok: "status (reply (updateUserProfile L db r b salt now)) = 200"
    and e: "or_stored L (field b ''email'') (email u) = Some e"
    and bl: "field bl ''email'' = JStr e" "field bl ''password'' = JStr q"
  shows "map_option password (findById (store (updateUserProfile L db r b salt now)) (user r)) =
           Some (Some (bcrypt_hash L p salt))"
    and "status (reply (loginUser L (store (updateUserProfile L db r b salt now)) bl t)) =
           (if bcrypt_check L q (bcrypt_hash L p salt) then 200 else 401)"
proof -
  let ?o = "updateUserProfile L db r b salt now"
  from update_ok_saved [OF f ok] obtain u'
    where s: "save L db salt (assign_profile L u b) = Inr (updateOne db u', u')"
      and st: "store ?o = updateOne db u'" by blast
  from save_assign_profile(2) [OF s] pw e
  have u': "uid u' = uid u" "email u' = Some e" "password u' = Some (bcrypt_hash L p salt)"
    by simp_all
  from f have k: "user r = Some (uid u)" by (rule findById_uid)
  from f k have fk: "findById db (Some (uid u)) = Some u" by simp
  from findById_updateOne [OF fk u'(1)] show "map_option password (findById (store ?o) (user r)) =
           Some (Some (bcrypt_hash L p salt))"
    by (simp add: st k u'(3))
  from fk u'(1) have fu: "find (\<lambda>v. uid v = uid u') db = Some u"
    by (simp add: findById_def)
  have others: "\<forall>v\<in>set db. uid v \<noteq> uid u' \<longrightarrow> email v \<noteq> email u'"
  proof (cases "isModified (assign_profile L u b) ''email''")
    case True
    from save_existing_unique [OF assign_profile_isNew s True] show ?thesis .
  next
    case False
    with e u'(2) have "email u' = email u"
      by (simp add: assign_profile_modified)
    with distinct_email_others [OF d fu] show ?thesis by simp
  qed
  from find_email_updateOne [OF fu others]
  have "findOne_email L (store ?o) (field bl ''email'') = Some u'"
    by (simp add: findOne_email_def st bl(1) u'(2))
  from login_known_email [OF this u'(3) bl(2)]
  show "status (reply (loginUser L (store ?o) bl t)) =
           (if bcrypt_check L q (bcrypt_hash L p salt) then 200 else 401)"
    by simp
qed

lemma register_created:
  assumes "status (reply (registerUser L db b i salt now)) = 201"
  shows "\<exists>u. store (registerUser L db b i salt now) = db @ [u] \<and> uid u = i \<and>
             password u \<noteq> None \<and>
             password u = map_option (\<lambda>p. bcrypt_hash L p salt) (castString L (field b ''password''))"
  using assms
  by (auto simp: registerUser_def Let_def create_def save_def pre_save_def validate_def
        required_ok_def isModified_def
        split: option.splits sum.splits if_splits)

lemma update_alice_stored_hash:
  "updateUserProfile ref_libs [alice] alice_req [''password'' \<mapsto> JStr ''s1old''] ''s2'' 5000 =
     \<lparr>store = [alice],
      reply = \<lparr>status = 200,
               json = Profile 7 (Some ''alice'') (Some ''a@x'') None None None
                        (generateToken ref_libs 7 5000)\<rparr>,
      console = []\<rparr>"
  apply (simp add: updateUserProfile_def)
  apply (simp add: save_def validate_def required_ok_def pre_save_def
        assign_profile_data assign_profile_modified assign_profile_isNew field_def
        or_stored_def Let_def alice_def)
  done

lemma update_alice_new_password:
  "updateUserProfile ref_libs [alice] alice_req [''password'' \<mapsto> JStr ''new''] ''s2'' 5000 =
     \<lparr>store = [alice\<lparr>password := Some ''s2new''\<rparr>],
      reply = \<lparr>status = 200,
               json = Profile 7 (Some ''alice'') (Some ''a@x'') None None None
                        (generateToken ref_libs 7 5000)\<rparr>,
      console = []\<rparr>"
  apply (simp add: updateUserProfile_def)
  apply (simp add: save_def validate_def required_ok_def pre_save_def
        assign_profile_data assign_profile_modified assign_profile_isNew field_def
        or_stored_def Let_def alice_def)
  done

text \<open>
  C6 (the code departs from it). The pre-save hook hashes the password when
  \<^verbatim>\<open>isModified("password")\<close> holds, and Mongoose marks the path modified only when the value
  assigned differs from the value the path holds. A profile update whose password is the
  very string stored in the password field is answered 200, yet the password it set is
  not hashed and not stored: the collection is unchanged, login with the password just
  supplied is refused and login with the old password still succeeds. The comment on
  the assignment says the pre-save hook will hash it. An update with any other non-empty
  string does store its hash (\<open>update_password_then_login\<close>, \<open>update_alice_new_password\<close>).
\<close>

theorem update_with_stored_hash_not_rehashed:
  "status (reply (updateUserProfile ref_libs [alice] alice_req
      [''password'' \<mapsto> JStr ''s1old''] ''s2'' 5000)) = 200 \<and>
   store (updateUserProfile ref_libs [alice] alice_req
      [''password'' \<mapsto> JStr ''s1old''] ''s2'' 5000) = [alice] \<and>
   password alice = Some ''s1old'' \<and>
   bcrypt_hash ref_libs ''s1old'' ''s2'' = ''s2s1old'' \<and>
   status (reply (loginUser ref_libs
      (store (updateUserProfile ref_libs [alice] alice_req
         [''password'' \<mapsto> JStr ''s1old''] ''s2'' 5000))
      [''email'' \<mapsto> JStr ''a@x'', ''password'' \<mapsto> JStr ''s1old''] 6000)) = 401 \<and>
   status (reply (loginUser ref_libs
      (store (updateUserProfile ref_libs [alice] alice_req
         [''password'' \<mapsto> JStr ''s1old''] ''s2'' 5000))
      [''email'' \<mapsto> JStr ''a@x'', ''password'' \<mapsto> JStr ''old''] 6000)) = 200"
  by (simp add: update_alice_stored_hash loginUser_def Let_def field_def findOne_email_def
        bcrypt_compare_def)

section \<open>The handlers keep the keys unique\<close>

text \<open>
  Registration and profile update, the two handlers that write, take a collection with
  unique keys to one with unique keys; login and payment do not write at all.
\<close>

lemma set_updateOne: "set (updateOne db u') \<subseteq> insert u' (set db)"
  by (induction db) auto

lemma map_uid_updateOne: "map uid (updateOne db u') = map uid db"
  by (induction db) auto

lemma distinct_updateOne:
  assumes "distinct (map uid db)" and "distinct (map f db)"
    and "\<forall>v\<in>set db. uid v \<noteq> uid u' \<longrightarrow> f v \<noteq> f u'"
  shows "distinct (map f (updateOne db u'))"
  using assms
proof (induction db)
  case Nil
  then show ?case by simp
next
  case (Cons h t)
  show ?case
  proof (cases "uid h = uid u'")
    case True
    from Cons.prems(1) have "uid h \<notin> uid ` set t" by simp
    with True have "\<forall>v\<in>set t. uid v \<noteq> uid u'" by (metis imageI)
    with Cons.prems(3) have "f u' \<notin> f ` set t" by (metis imageE list.set_intros(2))
    with Cons.prems True show ?thesis by simp
  next
    case False
    from Cons have d: "distinct (map f (updateOne t u'))" by simp
    from Cons.prems False have "f h \<noteq> f u'" and "f h \<notin> f ` set t" by auto
    with set_updateOne [of t u'] have "f h \<notin> f ` set (updateOne t u')" by auto
    with d False show ?thesis by simp
  qed
qed

lemma save_existing_unique_username:
  assumes "\<not> isNew d" and "save L db salt d = Inr (db', u')" and "isModified d ''username''"
  shows "\<forall>v\<in>set db. uid v \<noteq> uid u' \<longrightarrow> username v \<noteq> username u'"
  using assms
  by (auto simp: save_def pre_save_def Let_def list_ex_iff isModified_def
           split: if_splits option.splits sum.splits)

lemma distinct_others:
  assumes "distinct (map f db)" and "find (\<lambda>v. uid v = k) db = Some u"
  shows "\<forall>v\<in>set db. uid v \<noteq> k \<longrightarrow> f v \<noteq> f u"
proof (intro ballI impI)
  fix v assume v: "v \<in> set db" and n: "uid v \<noteq> k"
  from assms(2) have u: "u \<in> set db" and k: "uid u = k"
    by (auto simp: find_Some_iff)
  from n k have "v \<noteq> u" by auto
  with assms(1) u v show "f v \<noteq> f u"
    by (auto simp: distinct_map inj_on_def)
qed

lemma save_new:
  assumes "isNew d" and "save L db salt d = Inr (db', u')"
  shows "db' = db @ [u'] \<and>
         (\<forall>v\<in>set db. uid v \<noteq> uid u' \<and> username v \<noteq> username u' \<and> email v \<noteq> email u')"
  using assms
  by (auto simp: save_def pre_save_def Let_def list_ex_iff
           split: if_splits option.splits sum.splits)

lemma register_store:
  "store (registerUser L db b i salt now) = db \<or>
   (\<exists>u'. store (registerUser L db b i salt now) = db @ [u'] \<and>
      (\<forall>v\<in>set db. uid v \<noteq> uid u' \<and> username v \<noteq> username u' \<and> email v \<noteq> email u'))"
proof (cases "findOne_email L db (field b ''email'')")
  case (Some a)
  then show ?thesis by (simp add: registerUser_def Let_def)
next
  case None
  show ?thesis
  proof (cases "create L db i salt (field b ''username'') (field b ''email'') (field b ''password'')")
    case (Inl e)
    with None show ?thesis by (simp add: registerUser_def Let_def)
  next
    case (Inr x)
    obtain db' u' where x: "x = (db', u')" by (cases x)
    from Inr x have "save L db salt
       \<lparr>data = \<lparr>uid = i, username = castString L (field b ''username''),
                email = castString L (field b ''email''),
                password = castString L (field b ''password''), firstName = None,
                lastName = None, phoneNumber = None\<rparr>,
        isNew = True,
        modified = (if castString L (field b ''username'') = None then {} else {''username''}) \<union>
                   (if castString L (field b ''email'') = None then {} else {''email''}) \<union>
                   (if castString L (field b ''password'') = None then {} else {''password''})\<rparr> =
       Inr (db', u')"
      by (simp add: create_def)
    from save_new [OF _ this] have "db' = db @ [u'] \<and>
         (\<forall>v\<in>set db. uid v \<noteq> uid u' \<and> username v \<noteq> username u' \<and> email v \<noteq> email u')"
      by simp
    with None Inr x show ?thesis by (simp add: registerUser_def Let_def)
  qed
qed

lemma unique_keys_register:
  assumes "unique_keys db"
  shows "unique_keys (store (registerUser L db b i salt now))"
proof -
  from register_store [of L db b i salt now] consider
    "store (registerUser L db b i salt now) = db" |
    u' where "store (registerUser L db b i salt now) = db @ [u']"
      "\<forall>v\<in>set db. uid v \<noteq> uid u' \<and> username v \<noteq> username u' \<and> email v \<noteq> email u'"
    by blast
  then show ?thesis
  proof cases
    case 1
    with assms show ?thesis by simp
  next
    case 2
    from 2(2) have "uid u' \<notin> uid ` set db" "username u' \<notin> username ` set db"
      "email u' \<notin> email ` set db"
      by (metis imageE)+
    with assms 2(1) show ?thesis by (simp add: unique_keys_def)
  qed
qed

lemma unique_keys_update:
  assumes "unique_keys db"
  shows "unique_keys (store (updateUserProfile L db r b salt now))"
proof (cases "findById db (user r)")
  case None
  with assms show ?thesis by (simp add: update_not_found)
next
  case (Some u)
  show ?thesis
  proof (cases "save L db salt (assign_profile L u b)")
    case (Inl e)
    with Some assms show ?thesis by (simp add: updateUserProfile_def)
  next
    case (Inr x)
    obtain db' u' where x: "x = (db', u')" by (cases x)
    from Inr x have s: "save L db salt (assign_profile L u b) = Inr (db', u')" by simp
    note sp = save_assign_profile [OF s]
    from sp(2) have id: "uid u' = uid u"
      and un: "username u' = or_stored L (field b ''username'') (username u)"
      and em: "email u' = or_stored L (field b ''email'') (email u)" by simp_all
    from Some have k: "user r = Some (uid u)" by (rule findById_uid)
    with Some id have fu: "find (\<lambda>v. uid v = uid u') db = Some u"
      by (simp add: findById_def)
    from assms have du: "distinct (map uid db)" and dn: "distinct (map username db)"
      and de: "distinct (map email db)" by (simp_all add: unique_keys_def)
    have on: "\<forall>v\<in>set db. uid v \<noteq> uid u' \<longrightarrow> username v \<noteq> username u'"
    proof (cases "isModified (assign_profile L u b) ''username''")
      case True
      from save_existing_unique_username [OF assign_profile_isNew s True] show ?thesis .
    next
      case False
      with un have "username u' = username u" by (simp add: assign_profile_modified)
      with distinct_others [OF dn fu] show ?thesis by simp
    qed
    have oe: "\<forall>v\<in>set db. uid v \<noteq> uid u' \<longrightarrow> email v \<noteq> email u'"
    proof (cases "isModified (assign_profile L u b) ''email''")
      case True
      from save_existing_unique [OF assign_profile_isNew s True] show ?thesis .
    next
      case False
      with em have "email u' = email u" by (simp add: assign_profile_modified)
      with distinct_others [OF de fu] show ?thesis by simp
    qed
    from Some s sp(1) have st: "store (updateUserProfile L db r b salt now) = updateOne db u'"
      by (simp add: updateUserProfile_def)
    show ?thesis
      unfolding st unique_keys_def
      using du distinct_updateOne [OF du dn on] distinct_updateOne [OF du de oe]
      by (simp add: map_uid_updateOne)
  qed
qed

end
